theory Spec2Isabelle
  imports Complex_Main
begin

chapter \<open>The embedding of \<^verbatim>\<open>src/cpp/cpp_operations.cpp\<close>\<close>

text \<open>
  Conventions of the embedding.
  \<^item> A C \<^verbatim>\<open>int\<close> is an \<open>int\<close>. No claim depends on 32-bit wrap-around: loop
    counters stay below their bounds, and an index is only compared with a size.
  \<^item> A \<^verbatim>\<open>double\<close> (and a \<^verbatim>\<open>float\<close>) is a type variable \<open>'a\<close> carrying just the
    operations the code applies to it (\<open>0\<close>, \<open>+\<close>, \<open>*\<close>, ...). Rounding is therefore not
    modelled; a statement that needs algebraic laws asks for them through the sort of
    \<open>'a\<close>.
  \<^item> A handle (\<^verbatim>\<open>void*\<close>) is an \<open>option\<close>: \<open>None\<close> is the null pointer, \<open>Some obj\<close>
    a pointer to the live object \<open>obj\<close>. A mutating entry point returns the handle
    with the updated object. Dangling and wrongly typed handles are undefined
    behaviour in the source and have no counterpart here.
  \<^item> An out-parameter \<^verbatim>\<open>T* result\<close> is a \<open>T option\<close> as well: \<open>None\<close> is a null
    pointer, \<open>Some v\<close> a pointer to a cell that holds \<open>v\<close>; the entry point returns
    the cell after the call.
  \<^item> A C++ exception is a value of \<open>exn\<close>; a method that can throw returns
    \<open>exn + 'r\<close>, with \<open>Inl\<close> the exception.
  \<^item> Memory is unbounded: an allocation fails only where the requested size is
    negative (it converts to a \<^verbatim>\<open>size_t\<close> above every limit). The texts of the
    exceptions raised by the standard library are those of libstdc++ on a 64-bit
    target.
  \<^item> The process state is the record \<open>world\<close>: the file-static string
    \<^verbatim>\<open>last_error_message\<close> and what has been written to \<^verbatim>\<open>std::cout\<close>.
\<close>

section \<open>Exceptions and the process state\<close>

datatype exn =
    Out_of_range string
  | Invalid_argument string
  | Length_error string
  | Bad_array_new_length

text \<open>\<^verbatim>\<open>e.what()\<close>.\<close>

fun what :: "exn \<Rightarrow> string" where
  "what (Out_of_range s) = s"
| "what (Invalid_argument s) = s"
| "what (Length_error s) = s"
| "what Bad_array_new_length = ''std::bad_array_new_length''"

record world =
  last_error_message :: string
  cout :: string

text \<open>
  The result codes of \<^verbatim>\<open>cpp_operations.hpp\<close> (the source includes
  \<^verbatim>\<open>cpp_operations.h\<close>), with their integer values.
\<close>

datatype CppResultCode =
    CPP_SUCCESS
  | CPP_NULL_POINTER
  | CPP_OUT_OF_BOUNDS
  | CPP_INVALID_OPERATION
  | CPP_MEMORY_ERROR
  | CPP_UNKNOWN_ERROR

fun code_value :: "CppResultCode \<Rightarrow> int" where
  "code_value CPP_SUCCESS = 0"
| "code_value CPP_NULL_POINTER = -1"
| "code_value CPP_OUT_OF_BOUNDS = -2"
| "code_value CPP_INVALID_OPERATION = -3"
| "code_value CPP_MEMORY_ERROR = -4"
| "code_value CPP_UNKNOWN_ERROR = -5"

section \<open>The standard library: \<^verbatim>\<open>std::vector::at\<close>\<close>

text \<open>Decimal digits of a \<^verbatim>\<open>size_t\<close>, as \<^verbatim>\<open>%zu\<close> prints them.\<close>

function show_nat :: "nat \<Rightarrow> string" where
  "show_nat n =
     (if n < 10 then [char_of (48 + n)]
      else show_nat (n div 10) @ [char_of (48 + n mod 10)])"
  by pat_completeness auto
termination
  by (relation "measure id") auto

declare show_nat.simps [simp del]

text \<open>An \<^verbatim>\<open>int\<close> argument converted to \<^verbatim>\<open>size_t\<close> (64 bits).\<close>

definition to_size_t :: "int \<Rightarrow> nat" where
  "to_size_t n = nat (n mod 2 ^ 64)"

definition range_check_msg :: "int \<Rightarrow> nat \<Rightarrow> string" where
  "range_check_msg n sz =
     ''vector::_M_range_check: __n (which is '' @ show_nat (to_size_t n) @
     '') >= this->size() (which is '' @ show_nat sz @ '')''"

text \<open>
  \<^verbatim>\<open>v.at(n)\<close> with an \<^verbatim>\<open>int\<close> argument: a negative \<open>n\<close> converts to a
  \<^verbatim>\<open>size_t\<close> beyond every size, so it is out of range as well.
\<close>

definition vector_at :: "'a list \<Rightarrow> int \<Rightarrow> exn + 'a" where
  "vector_at v n =
     (if 0 \<le> n \<and> n < int (length v) then Inr (v ! nat n)
      else Inl (Out_of_range (range_check_msg n (length v))))"

section \<open>class \<^verbatim>\<open>Matrix\<close>\<close>

text \<open>
  The members \<^verbatim>\<open>rows_\<close> and \<^verbatim>\<open>cols_\<close> are the fields \<open>mrows\<close> and \<open>mcols\<close> (a
  name cannot end with an underscore here).
\<close>

record 'a Matrix =
  data :: "'a list list"
  mrows :: int
  mcols :: int

text \<open>
  The constructor: \<^verbatim>\<open>std::vector<double>(cols, 0.0)\<close> is built first, then
  \<^verbatim>\<open>data.resize(rows, ...)\<close>; each throws \<^verbatim>\<open>std::length_error\<close> on a negative count.
\<close>

definition Matrix_new :: "int \<Rightarrow> int \<Rightarrow> exn + ('a::zero) Matrix" where
  "Matrix_new rows cols =
     (if cols < 0 then Inl (Length_error ''cannot create std::vector larger than max_size()'')
      else if rows < 0 then Inl (Length_error ''vector::_M_fill_insert'')
      else Inr \<lparr>Matrix.data = replicate (nat rows) (replicate (nat cols) 0),
                mrows = rows, mcols = cols\<rparr>)"

text \<open>\<^verbatim>\<open>data.at(row).at(col) = value\<close>\<close>

definition Matrix_set :: "'a Matrix \<Rightarrow> int \<Rightarrow> int \<Rightarrow> 'a \<Rightarrow> exn + 'a Matrix" where
  "Matrix_set m row col val =
     (case vector_at (Matrix.data m) row of
        Inl e \<Rightarrow> Inl e
      | Inr r \<Rightarrow>
          (case vector_at r col of
             Inl e \<Rightarrow> Inl e
           | Inr _ \<Rightarrow>
               Inr (m\<lparr>Matrix.data := (Matrix.data m)[nat row := r[nat col := val]]\<rparr>)))"

text \<open>\<^verbatim>\<open>return data.at(row).at(col)\<close>\<close>

definition Matrix_get :: "'a Matrix \<Rightarrow> int \<Rightarrow> int \<Rightarrow> exn + 'a" where
  "Matrix_get m row col =
     (case vector_at (Matrix.data m) row of
        Inl e \<Rightarrow> Inl e
      | Inr r \<Rightarrow> vector_at r col)"

definition Matrix_rows :: "'a Matrix \<Rightarrow> int" where
  "Matrix_rows m = mrows m"

definition Matrix_cols :: "'a Matrix \<Rightarrow> int" where
  "Matrix_cols m = mcols m"

text \<open>
  \<^verbatim>\<open>data[i][k]\<close>: the unchecked \<^verbatim>\<open>operator[]\<close>. Out of range it is undefined
  behaviour in C++ and an unspecified value here; the loops below stay in range on
  every matrix the class can build (\<open>wf_Matrix\<close>).
\<close>

definition cell :: "'a Matrix \<Rightarrow> int \<Rightarrow> int \<Rightarrow> 'a" where
  "cell m i j = Matrix.data m ! nat i ! nat j"

text \<open>
  \<^verbatim>\<open>Matrix::multiply\<close>, innermost loop:
  \<^verbatim>\<open>for (int k = 0; k < cols_; k++) sum += data[i][k] * other.data[k][j];\<close>
\<close>

function multiply_k ::
  "('a::{plus,times}) Matrix \<Rightarrow> 'a Matrix \<Rightarrow> int \<Rightarrow> int \<Rightarrow> int \<Rightarrow> 'a \<Rightarrow> 'a" where
  "multiply_k this other i j k sum_acc =
     (if k < mcols this
      then multiply_k this other i j (k + 1) (sum_acc + cell this i k * cell other k j)
      else sum_acc)"
  by pat_completeness auto
termination
  by (relation "measure (\<lambda>(this, other, i, j, k, sum_acc). nat (mcols this - k))") auto

declare multiply_k.simps [simp del]

text \<open>
  The middle loop:
  \<^verbatim>\<open>for (int j = 0; j < other.cols_; j++) { double sum = 0.0; ...; result->set(i, j, sum); }\<close>
\<close>

function multiply_j ::
  "('a::{zero,plus,times}) Matrix \<Rightarrow> 'a Matrix \<Rightarrow> int \<Rightarrow> int \<Rightarrow> 'a Matrix \<Rightarrow> exn + 'a Matrix" where
  "multiply_j this other i j result =
     (if j < mcols other
      then (case Matrix_set result i j (multiply_k this other i j 0 0) of
              Inl e \<Rightarrow> Inl e
            | Inr result' \<Rightarrow> multiply_j this other i (j + 1) result')
      else Inr result)"
  by pat_completeness auto
termination
  by (relation "measure (\<lambda>(this, other, i, j, result). nat (mcols other - j))") auto

declare multiply_j.simps [simp del]

text \<open>The outer loop: \<^verbatim>\<open>for (int i = 0; i < rows_; i++) ...\<close>\<close>

function multiply_i ::
  "('a::{zero,plus,times}) Matrix \<Rightarrow> 'a Matrix \<Rightarrow> int \<Rightarrow> 'a Matrix \<Rightarrow> exn + 'a Matrix" where
  "multiply_i this other i result =
     (if i < mrows this
      then (case multiply_j this other i 0 result of
              Inl e \<Rightarrow> Inl e
            | Inr result' \<Rightarrow> multiply_i this other (i + 1) result')
      else Inr result)"
  by pat_completeness auto
termination
  by (relation "measure (\<lambda>(this, other, i, result). nat (mrows this - i))") auto

declare multiply_i.simps [simp del]

definition Matrix_multiply ::
  "('a::{zero,plus,times}) Matrix \<Rightarrow> 'a Matrix \<Rightarrow> exn + 'a Matrix" where
  "Matrix_multiply this other =
     (if mcols this \<noteq> mrows other
      then Inl (Invalid_argument ''Matrix dimensions don't match for multiplication'')
      else (case Matrix_new (mrows this) (mcols other) of
              Inl e \<Rightarrow> Inl e
            | Inr result \<Rightarrow> multiply_i this other 0 result))"

text \<open>
  \<^verbatim>\<open>Matrix::transpose\<close>, inner loop:
  \<^verbatim>\<open>for (int j = 0; j < cols_; j++) result->set(j, i, data[i][j]);\<close>
\<close>

function transpose_j :: "'a Matrix \<Rightarrow> int \<Rightarrow> int \<Rightarrow> 'a Matrix \<Rightarrow> exn + 'a Matrix" where
  "transpose_j this i j result =
     (if j < mcols this
      then (case Matrix_set result j i (cell this i j) of
              Inl e \<Rightarrow> Inl e
            | Inr result' \<Rightarrow> transpose_j this i (j + 1) result')
      else Inr result)"
  by pat_completeness auto
termination
  by (relation "measure (\<lambda>(this, i, j, result). nat (mcols this - j))") auto

declare transpose_j.simps [simp del]

function transpose_i :: "'a Matrix \<Rightarrow> int \<Rightarrow> 'a Matrix \<Rightarrow> exn + 'a Matrix" where
  "transpose_i this i result =
     (if i < mrows this
      then (case transpose_j this i 0 result of
              Inl e \<Rightarrow> Inl e
            | Inr result' \<Rightarrow> transpose_i this (i + 1) result')
      else Inr result)"
  by pat_completeness auto
termination
  by (relation "measure (\<lambda>(this, i, result). nat (mrows this - i))") auto

declare transpose_i.simps [simp del]

definition Matrix_transpose :: "('a::zero) Matrix \<Rightarrow> exn + 'a Matrix" where
  "Matrix_transpose this =
     (case Matrix_new (mcols this) (mrows this) of
        Inl e \<Rightarrow> Inl e
      | Inr result \<Rightarrow> transpose_i this 0 result)"


text \<open>
  \<^verbatim>\<open>Matrix::print\<close>. How \<^verbatim>\<open>operator<<\<close> formats a \<^verbatim>\<open>double\<close> is the standard
  library's business: \<open>print_double\<close> stands for it.
\<close>

definition Matrix_print :: "('a \<Rightarrow> string) \<Rightarrow> 'a Matrix \<Rightarrow> string \<Rightarrow> string" where
  "Matrix_print print_double this out =
     fold (\<lambda>i out.
             fold (\<lambda>j out. out @ print_double (cell this (int i) (int j)) @ '' '')
               [0..<nat (mcols this)] out @ [CHR 0x0A])
       [0..<nat (mrows this)] out"

section \<open>class \<^verbatim>\<open>VectorWrapper\<close>\<close>

record VectorWrapper =
  data :: "int list"

definition VectorWrapper_new :: VectorWrapper where
  "VectorWrapper_new = \<lparr>VectorWrapper.data = []\<rparr>"

definition VectorWrapper_add :: "VectorWrapper \<Rightarrow> int \<Rightarrow> VectorWrapper" where
  "VectorWrapper_add v val = v\<lparr>VectorWrapper.data := VectorWrapper.data v @ [val]\<rparr>"

definition VectorWrapper_get :: "VectorWrapper \<Rightarrow> int \<Rightarrow> exn + int" where
  "VectorWrapper_get v index = vector_at (VectorWrapper.data v) index"

definition VectorWrapper_size :: "VectorWrapper \<Rightarrow> int" where
  "VectorWrapper_size v = int (length (VectorWrapper.data v))"

definition VectorWrapper_clear :: "VectorWrapper \<Rightarrow> VectorWrapper" where
  "VectorWrapper_clear v = v\<lparr>VectorWrapper.data := []\<rparr>"

text \<open>
  \<^verbatim>\<open>std::accumulate(data.begin(), data.end(), 0)\<close>: a left fold from 0. (A sum
  beyond the range of \<^verbatim>\<open>int\<close> is undefined behaviour in the source.)
\<close>

definition VectorWrapper_sum :: "VectorWrapper \<Rightarrow> int" where
  "VectorWrapper_sum v = foldl (+) 0 (VectorWrapper.data v)"

definition VectorWrapper_sort :: "VectorWrapper \<Rightarrow> VectorWrapper" where
  "VectorWrapper_sort v = v\<lparr>VectorWrapper.data := sort (VectorWrapper.data v)\<rparr>"

section \<open>class \<^verbatim>\<open>StringWrapper\<close>\<close>

record StringWrapper =
  data :: string

text \<open>\<^verbatim>\<open>::toupper\<close> and \<^verbatim>\<open>::tolower\<close> in the C locale, on bytes.\<close>

definition toupper :: "char \<Rightarrow> char" where
  "toupper c = (let n = (of_char c :: nat) in if 97 \<le> n \<and> n \<le> 122 then char_of (n - 32) else c)"

definition tolower :: "char \<Rightarrow> char" where
  "tolower c = (let n = (of_char c :: nat) in if 65 \<le> n \<and> n \<le> 90 then char_of (n + 32) else c)"

definition StringWrapper_new :: "string \<Rightarrow> StringWrapper" where
  "StringWrapper_new initial = \<lparr>StringWrapper.data = initial\<rparr>"

definition StringWrapper_c_str :: "StringWrapper \<Rightarrow> string" where
  "StringWrapper_c_str s = StringWrapper.data s"

definition StringWrapper_append :: "StringWrapper \<Rightarrow> string \<Rightarrow> StringWrapper" where
  "StringWrapper_append s txt = s\<lparr>StringWrapper.data := StringWrapper.data s @ txt\<rparr>"

definition StringWrapper_prepend :: "StringWrapper \<Rightarrow> string \<Rightarrow> StringWrapper" where
  "StringWrapper_prepend s txt = s\<lparr>StringWrapper.data := txt @ StringWrapper.data s\<rparr>"

definition StringWrapper_length :: "StringWrapper \<Rightarrow> int" where
  "StringWrapper_length s = int (length (StringWrapper.data s))"

definition StringWrapper_reverse :: "StringWrapper \<Rightarrow> StringWrapper" where
  "StringWrapper_reverse s = s\<lparr>StringWrapper.data := rev (StringWrapper.data s)\<rparr>"

definition StringWrapper_to_upper :: "StringWrapper \<Rightarrow> StringWrapper" where
  "StringWrapper_to_upper s = s\<lparr>StringWrapper.data := map toupper (StringWrapper.data s)\<rparr>"

definition StringWrapper_to_lower :: "StringWrapper \<Rightarrow> StringWrapper" where
  "StringWrapper_to_lower s = s\<lparr>StringWrapper.data := map tolower (StringWrapper.data s)\<rparr>"

section \<open>class \<^verbatim>\<open>SmartResource\<close>\<close>

text \<open>The member \<^verbatim>\<open>size_\<close> is the field \<open>rsize\<close>.\<close>

record 'a SmartResource =
  data :: "'a list"
  rsize :: int

text \<open>
  \<^verbatim>\<open>std::make_unique<double[]>(size)\<close> throws \<^verbatim>\<open>std::bad_array_new_length\<close> on a
  negative size \<open>sz\<close>; otherwise the array is value-initialised and the constructor's
  loop stores \<open>0.0\<close> in every cell again.
\<close>

definition SmartResource_new :: "int \<Rightarrow> exn + ('a::zero) SmartResource" where
  "SmartResource_new sz =
     (if sz < 0 then Inl Bad_array_new_length
      else Inr \<lparr>SmartResource.data =
                  fold (\<lambda>i d. d[i := 0]) [0..<nat sz] (replicate (nat sz) 0),
                rsize = sz\<rparr>)"

definition SmartResource_set :: "'a SmartResource \<Rightarrow> int \<Rightarrow> 'a \<Rightarrow> 'a SmartResource" where
  "SmartResource_set r index val =
     (if index \<ge> 0 \<and> index < rsize r
      then r\<lparr>SmartResource.data := (SmartResource.data r)[nat index := val]\<rparr>
      else r)"

definition SmartResource_get :: "('a::zero) SmartResource \<Rightarrow> int \<Rightarrow> 'a" where
  "SmartResource_get r index =
     (if index \<ge> 0 \<and> index < rsize r then SmartResource.data r ! nat index else 0)"

definition SmartResource_size :: "'a SmartResource \<Rightarrow> int" where
  "SmartResource_size r = rsize r"

section \<open>class \<^verbatim>\<open>IteratorWrapper\<close>\<close>

text \<open>
  The iterator \<^verbatim>\<open>current\<close> is its distance from \<^verbatim>\<open>data.begin()\<close>;
  \<^verbatim>\<open>data.end()\<close> is at \<open>length data\<close>.
\<close>

record IteratorWrapper =
  data :: "int list"
  current :: nat

text \<open>
  \<^verbatim>\<open>data(array, array + size)\<close> copies the first \<open>sz\<close> elements of the caller's
  array; a negative \<open>sz\<close> makes libstdc++ throw \<^verbatim>\<open>std::length_error\<close>.
\<close>

definition IteratorWrapper_new :: "int list \<Rightarrow> int \<Rightarrow> exn + IteratorWrapper" where
  "IteratorWrapper_new array sz =
     (if sz < 0 then Inl (Length_error ''cannot create std::vector larger than max_size()'')
      else Inr \<lparr>IteratorWrapper.data = take (nat sz) array, current = 0\<rparr>)"

definition IteratorWrapper_has_next :: "IteratorWrapper \<Rightarrow> bool" where
  "IteratorWrapper_has_next it \<longleftrightarrow> current it \<noteq> length (IteratorWrapper.data it)"

text \<open>\<^verbatim>\<open>return *current++\<close>: the element under the cursor, and the cursor moves on.\<close>

definition IteratorWrapper_next :: "IteratorWrapper \<Rightarrow> int \<times> IteratorWrapper" where
  "IteratorWrapper_next it =
     (if IteratorWrapper_has_next it
      then (IteratorWrapper.data it ! current it, it\<lparr>current := current it + 1\<rparr>)
      else (0, it))"

definition IteratorWrapper_reset :: "IteratorWrapper \<Rightarrow> IteratorWrapper" where
  "IteratorWrapper_reset it = it\<lparr>current := 0\<rparr>"

text \<open>
  \<^verbatim>\<open>std::find(first, last, value)\<close>: the position of the first element equal to
  \<open>value\<close>, the length of the range when there is none.
\<close>

fun std_find :: "int list \<Rightarrow> int \<Rightarrow> nat" where
  "std_find [] val = 0"
| "std_find (x # xs) val = (if x = val then 0 else Suc (std_find xs val))"

definition IteratorWrapper_find :: "IteratorWrapper \<Rightarrow> int \<Rightarrow> bool \<times> IteratorWrapper" where
  "IteratorWrapper_find this val =
     (let it = std_find (IteratorWrapper.data this) val
      in if it \<noteq> length (IteratorWrapper.data this)
         then (True, this\<lparr>current := it\<rparr>)
         else (False, this))"

section \<open>The template functions\<close>

text \<open>
  \<open>values\<close> is the caller's array, of which the first \<open>count\<close> elements are read.
  In \<^verbatim>\<open>sum / count\<close> the \<^verbatim>\<open>int\<close> is converted to \<open>T\<close>: \<open>of_int\<close>.
\<close>

definition calculate_mean_template :: "('a::division_ring) list \<Rightarrow> int \<Rightarrow> 'a" where
  "calculate_mean_template values count =
     (if count \<le> 0 then 0
      else foldl (+) 0 (take (nat count) values) / of_int count)"

definition calculate_variance_template :: "('a::division_ring) list \<Rightarrow> int \<Rightarrow> 'a" where
  "calculate_variance_template values count =
     (if count \<le> 0 then 0
      else let mean = calculate_mean_template values count;
               sum_squared_diff =
                 foldl (\<lambda>acc v. let diff = v - mean in acc + diff * diff) 0
                   (take (nat count) values)
           in sum_squared_diff / of_int count)"


section \<open>The C API\<close>

text \<open>
  Every entry point takes the process state and returns it with its result. An entry
  point that mutates the object behind its handle returns the handle as well, now
  pointing to the updated object. \<^verbatim>\<open>catch (const std::exception& e)
  { last_error_message = e.what(); ... }\<close> is \<open>set_error\<close>. Where the \<^verbatim>\<open>try\<close> block
  holds nothing that throws in this model (a \<^verbatim>\<open>new\<close> of an object of fixed size, the
  template functions, the three lambdas), its handler is unreachable and left out.
\<close>

type_synonym VectorHandle = "VectorWrapper option"
type_synonym StringHandle = "StringWrapper option"
type_synonym 'a MatrixHandle = "'a Matrix option"
type_synonym 'a SmartResourceHandle = "'a SmartResource option"
type_synonym 'a FunctionHandle = "('a \<Rightarrow> 'a \<Rightarrow> 'a) option"
type_synonym IteratorHandle = "IteratorWrapper option"

text \<open>
  What the entry points take from \<^verbatim>\<open><cmath>\<close> and \<^verbatim>\<open><iostream>\<close>:
  \<^verbatim>\<open>std::sqrt\<close>, \<^verbatim>\<open>std::pow\<close> and the formatting of a \<^verbatim>\<open>double\<close> by \<^verbatim>\<open>operator<<\<close>.
\<close>

record 'a stdlib =
  std_sqrt :: "'a \<Rightarrow> 'a"
  std_pow :: "'a \<Rightarrow> 'a \<Rightarrow> 'a"
  print_double :: "'a \<Rightarrow> string"

definition set_error :: "exn \<Rightarrow> world \<Rightarrow> world" where
  "set_error e w = w\<lparr>last_error_message := what e\<rparr>"

text \<open>Which handler a thrown exception reaches: the dynamic type tests of \<^verbatim>\<open>catch\<close>.\<close>

fun is_out_of_range :: "exn \<Rightarrow> bool" where
  "is_out_of_range (Out_of_range s) = True"
| "is_out_of_range e = False"

fun is_invalid_argument :: "exn \<Rightarrow> bool" where
  "is_invalid_argument (Invalid_argument s) = True"
| "is_invalid_argument e = False"

subsection \<open>Vector operations\<close>

definition vector_create :: "world \<Rightarrow> VectorHandle \<times> world" where
  "vector_create w = (Some VectorWrapper_new, w)"

definition vector_destroy :: "VectorHandle \<Rightarrow> world \<Rightarrow> world" where
  "vector_destroy handle w = w"

definition vector_add :: "VectorHandle \<Rightarrow> int \<Rightarrow> world \<Rightarrow> VectorHandle \<times> world" where
  "vector_add handle val w =
     (case handle of
        None \<Rightarrow> (None, w)
      | Some v \<Rightarrow> (Some (VectorWrapper_add v val), w))"

definition vector_get :: "VectorHandle \<Rightarrow> int \<Rightarrow> world \<Rightarrow> int \<times> world" where
  "vector_get handle index w =
     (case handle of
        None \<Rightarrow> (0, w)
      | Some v \<Rightarrow>
          (case VectorWrapper_get v index of
             Inr x \<Rightarrow> (x, w)
           | Inl e \<Rightarrow> (0, set_error e w)))"

definition vector_size :: "VectorHandle \<Rightarrow> world \<Rightarrow> int \<times> world" where
  "vector_size handle w =
     (case handle of None \<Rightarrow> (0, w) | Some v \<Rightarrow> (VectorWrapper_size v, w))"

definition vector_clear :: "VectorHandle \<Rightarrow> world \<Rightarrow> VectorHandle \<times> world" where
  "vector_clear handle w =
     (case handle of None \<Rightarrow> (None, w) | Some v \<Rightarrow> (Some (VectorWrapper_clear v), w))"

definition vector_sum :: "VectorHandle \<Rightarrow> world \<Rightarrow> int \<times> world" where
  "vector_sum handle w =
     (case handle of None \<Rightarrow> (0, w) | Some v \<Rightarrow> (VectorWrapper_sum v, w))"

definition vector_sort :: "VectorHandle \<Rightarrow> world \<Rightarrow> VectorHandle \<times> world" where
  "vector_sort handle w =
     (case handle of None \<Rightarrow> (None, w) | Some v \<Rightarrow> (Some (VectorWrapper_sort v), w))"

subsection \<open>String operations\<close>

text \<open>A \<^verbatim>\<open>const char*\<close> argument is a \<open>string option\<close>, \<open>None\<close> the null pointer.\<close>

definition string_create :: "string option \<Rightarrow> world \<Rightarrow> StringHandle \<times> world" where
  "string_create initial_value w =
     (Some (StringWrapper_new (case initial_value of Some s \<Rightarrow> s | None \<Rightarrow> [])), w)"

definition string_destroy :: "StringHandle \<Rightarrow> world \<Rightarrow> world" where
  "string_destroy handle w = w"

definition string_get_cstr :: "StringHandle \<Rightarrow> world \<Rightarrow> string \<times> world" where
  "string_get_cstr handle w =
     (case handle of None \<Rightarrow> ([], w) | Some s \<Rightarrow> (StringWrapper_c_str s, w))"

definition string_append :: "StringHandle \<Rightarrow> string option \<Rightarrow> world \<Rightarrow> StringHandle \<times> world" where
  "string_append handle txt w =
     (case (handle, txt) of
        (Some s, Some t) \<Rightarrow> (Some (StringWrapper_append s t), w)
      | _ \<Rightarrow> (handle, w))"

definition string_prepend :: "StringHandle \<Rightarrow> string option \<Rightarrow> world \<Rightarrow> StringHandle \<times> world" where
  "string_prepend handle txt w =
     (case (handle, txt) of
        (Some s, Some t) \<Rightarrow> (Some (StringWrapper_prepend s t), w)
      | _ \<Rightarrow> (handle, w))"

definition string_length_cpp :: "StringHandle \<Rightarrow> world \<Rightarrow> int \<times> world" where
  "string_length_cpp handle w =
     (case handle of None \<Rightarrow> (0, w) | Some s \<Rightarrow> (StringWrapper_length s, w))"

definition string_reverse :: "StringHandle \<Rightarrow> world \<Rightarrow> StringHandle \<times> world" where
  "string_reverse handle w =
     (case handle of None \<Rightarrow> (None, w) | Some s \<Rightarrow> (Some (StringWrapper_reverse s), w))"

definition string_to_upper :: "StringHandle \<Rightarrow> world \<Rightarrow> StringHandle \<times> world" where
  "string_to_upper handle w =
     (case handle of None \<Rightarrow> (None, w) | Some s \<Rightarrow> (Some (StringWrapper_to_upper s), w))"

definition string_to_lower :: "StringHandle \<Rightarrow> world \<Rightarrow> StringHandle \<times> world" where
  "string_to_lower handle w =
     (case handle of None \<Rightarrow> (None, w) | Some s \<Rightarrow> (Some (StringWrapper_to_lower s), w))"

subsection \<open>Mathematical operations\<close>

definition calculate_mean_double :: "('a::division_ring) list \<Rightarrow> int \<Rightarrow> world \<Rightarrow> 'a \<times> world" where
  "calculate_mean_double values count w = (calculate_mean_template values count, w)"

definition calculate_mean_float :: "('f::division_ring) list \<Rightarrow> int \<Rightarrow> world \<Rightarrow> 'f \<times> world" where
  "calculate_mean_float values count w = (calculate_mean_template values count, w)"

definition calculate_variance :: "('a::division_ring) list \<Rightarrow> int \<Rightarrow> world \<Rightarrow> 'a \<times> world" where
  "calculate_variance values count w = (calculate_variance_template values count, w)"

definition calculate_standard_deviation ::
  "('a::division_ring) stdlib \<Rightarrow> 'a list \<Rightarrow> int \<Rightarrow> world \<Rightarrow> 'a \<times> world" where
  "calculate_standard_deviation L values count w =
     (let variance = calculate_variance_template values count
      in (std_sqrt L variance, w))"

subsection \<open>Matrix operations\<close>

definition matrix_create :: "int \<Rightarrow> int \<Rightarrow> world \<Rightarrow> ('a::zero) MatrixHandle \<times> world" where
  "matrix_create rows cols w =
     (case Matrix_new rows cols of
        Inr m \<Rightarrow> (Some m, w)
      | Inl e \<Rightarrow> (None, set_error e w))"

definition matrix_destroy :: "'a MatrixHandle \<Rightarrow> world \<Rightarrow> world" where
  "matrix_destroy handle w = w"

definition matrix_set ::
  "'a MatrixHandle \<Rightarrow> int \<Rightarrow> int \<Rightarrow> 'a \<Rightarrow> world \<Rightarrow> 'a MatrixHandle \<times> world" where
  "matrix_set handle row col val w =
     (case handle of
        None \<Rightarrow> (None, w)
      | Some m \<Rightarrow>
          (case Matrix_set m row col val of
             Inr m' \<Rightarrow> (Some m', w)
           | Inl e \<Rightarrow> (Some m, set_error e w)))"

definition matrix_get :: "('a::zero) MatrixHandle \<Rightarrow> int \<Rightarrow> int \<Rightarrow> world \<Rightarrow> 'a \<times> world" where
  "matrix_get handle row col w =
     (case handle of
        None \<Rightarrow> (0, w)
      | Some m \<Rightarrow>
          (case Matrix_get m row col of
             Inr x \<Rightarrow> (x, w)
           | Inl e \<Rightarrow> (0, set_error e w)))"

definition matrix_rows :: "'a MatrixHandle \<Rightarrow> world \<Rightarrow> int \<times> world" where
  "matrix_rows handle w =
     (case handle of None \<Rightarrow> (0, w) | Some m \<Rightarrow> (Matrix_rows m, w))"

definition matrix_cols :: "'a MatrixHandle \<Rightarrow> world \<Rightarrow> int \<times> world" where
  "matrix_cols handle w =
     (case handle of None \<Rightarrow> (0, w) | Some m \<Rightarrow> (Matrix_cols m, w))"

definition matrix_multiply ::
  "('a::{zero,plus,times}) MatrixHandle \<Rightarrow> 'a MatrixHandle \<Rightarrow> world \<Rightarrow> 'a MatrixHandle \<times> world" where
  "matrix_multiply a b w =
     (case (a, b) of
        (Some ma, Some mb) \<Rightarrow>
          (case Matrix_multiply ma mb of
             Inr result \<Rightarrow> (Some result, w)
           | Inl e \<Rightarrow> (None, set_error e w))
      | _ \<Rightarrow> (None, w))"

definition matrix_transpose :: "('a::zero) MatrixHandle \<Rightarrow> world \<Rightarrow> 'a MatrixHandle \<times> world" where
  "matrix_transpose handle w =
     (case handle of
        None \<Rightarrow> (None, w)
      | Some m \<Rightarrow>
          (case Matrix_transpose m of
             Inr result \<Rightarrow> (Some result, w)
           | Inl e \<Rightarrow> (None, set_error e w)))"

definition matrix_print :: "'a stdlib \<Rightarrow> 'a MatrixHandle \<Rightarrow> world \<Rightarrow> world" where
  "matrix_print L handle w =
     (case handle of
        None \<Rightarrow> w
      | Some m \<Rightarrow> w\<lparr>cout := Matrix_print (print_double L) m (cout w)\<rparr>)"

subsection \<open>Smart resource operations\<close>

definition smart_resource_create :: "int \<Rightarrow> world \<Rightarrow> ('a::zero) SmartResourceHandle \<times> world" where
  "smart_resource_create sz w =
     (case SmartResource_new sz of
        Inr r \<Rightarrow> (Some r, w)
      | Inl e \<Rightarrow> (None, set_error e w))"

definition smart_resource_use ::
  "'a SmartResourceHandle \<Rightarrow> int \<Rightarrow> 'a \<Rightarrow> world \<Rightarrow> 'a SmartResourceHandle \<times> world" where
  "smart_resource_use handle index val w =
     (case handle of
        None \<Rightarrow> (None, w)
      | Some r \<Rightarrow> (Some (SmartResource_set r index val), w))"

definition smart_resource_get ::
  "('a::zero) SmartResourceHandle \<Rightarrow> int \<Rightarrow> world \<Rightarrow> 'a \<times> world" where
  "smart_resource_get handle index w =
     (case handle of None \<Rightarrow> (0, w) | Some r \<Rightarrow> (SmartResource_get r index, w))"

definition smart_resource_size :: "'a SmartResourceHandle \<Rightarrow> world \<Rightarrow> int \<times> world" where
  "smart_resource_size handle w =
     (case handle of None \<Rightarrow> (0, w) | Some r \<Rightarrow> (SmartResource_size r, w))"

subsection \<open>Function operations\<close>

definition function_create_add :: "world \<Rightarrow> ('a::plus) FunctionHandle \<times> world" where
  "function_create_add w = (Some (\<lambda>a b. a + b), w)"

definition function_create_multiply :: "world \<Rightarrow> ('a::times) FunctionHandle \<times> world" where
  "function_create_multiply w = (Some (\<lambda>a b. a * b), w)"

definition function_create_power :: "'a stdlib \<Rightarrow> world \<Rightarrow> 'a FunctionHandle \<times> world" where
  "function_create_power L w = (Some (\<lambda>a b. std_pow L a b), w)"

definition function_destroy :: "'a FunctionHandle \<Rightarrow> world \<Rightarrow> world" where
  "function_destroy handle w = w"

definition function_call :: "('a::zero) FunctionHandle \<Rightarrow> 'a \<Rightarrow> 'a \<Rightarrow> world \<Rightarrow> 'a \<times> world" where
  "function_call handle a b w =
     (case handle of None \<Rightarrow> (0, w) | Some f \<Rightarrow> (f a b, w))"

subsection \<open>Iterator operations\<close>

definition iterator_create :: "int list \<Rightarrow> int \<Rightarrow> world \<Rightarrow> IteratorHandle \<times> world" where
  "iterator_create array sz w =
     (case IteratorWrapper_new array sz of
        Inr it \<Rightarrow> (Some it, w)
      | Inl e \<Rightarrow> (None, set_error e w))"

definition iterator_destroy :: "IteratorHandle \<Rightarrow> world \<Rightarrow> world" where
  "iterator_destroy handle w = w"

definition iterator_has_next :: "IteratorHandle \<Rightarrow> world \<Rightarrow> int \<times> world" where
  "iterator_has_next handle w =
     (case handle of
        None \<Rightarrow> (0, w)
      | Some it \<Rightarrow> (if IteratorWrapper_has_next it then 1 else 0, w))"

definition iterator_next :: "IteratorHandle \<Rightarrow> world \<Rightarrow> (int \<times> IteratorHandle) \<times> world" where
  "iterator_next handle w =
     (case handle of
        None \<Rightarrow> ((0, None), w)
      | Some it \<Rightarrow> (case IteratorWrapper_next it of (x, it') \<Rightarrow> ((x, Some it'), w)))"

definition iterator_reset :: "IteratorHandle \<Rightarrow> world \<Rightarrow> IteratorHandle \<times> world" where
  "iterator_reset handle w =
     (case handle of None \<Rightarrow> (None, w) | Some it \<Rightarrow> (Some (IteratorWrapper_reset it), w))"

definition iterator_find :: "IteratorHandle \<Rightarrow> int \<Rightarrow> world \<Rightarrow> (int \<times> IteratorHandle) \<times> world" where
  "iterator_find handle val w =
     (case handle of
        None \<Rightarrow> ((0, None), w)
      | Some it \<Rightarrow>
          (case IteratorWrapper_find it val of
             (found, it') \<Rightarrow> ((if found then 1 else 0, Some it'), w)))"

subsection \<open>Exception handling\<close>

text \<open>
  The result pairs the code with the out-parameter's cell after the call.
  \<^verbatim>\<open>*result = ...->get(index)\<close> assigns only once \<^verbatim>\<open>get\<close> has returned.
\<close>

definition safe_vector_get ::
  "VectorHandle \<Rightarrow> int \<Rightarrow> int option \<Rightarrow> world \<Rightarrow> (CppResultCode \<times> int option) \<times> world" where
  "safe_vector_get handle index result w =
     (case handle of
        None \<Rightarrow> ((CPP_NULL_POINTER, result), w)
      | Some v \<Rightarrow>
          (case result of
             None \<Rightarrow> ((CPP_NULL_POINTER, result), w)
           | Some _ \<Rightarrow>
               (case VectorWrapper_get v index of
                  Inr x \<Rightarrow> ((CPP_SUCCESS, Some x), w)
                | Inl e \<Rightarrow>
                    if is_out_of_range e then ((CPP_OUT_OF_BOUNDS, result), set_error e w)
                    else ((CPP_UNKNOWN_ERROR, result), set_error e w))))"

definition safe_matrix_multiply ::
  "('a::{zero,plus,times}) MatrixHandle \<Rightarrow> 'a MatrixHandle \<Rightarrow> 'a MatrixHandle option \<Rightarrow> world
     \<Rightarrow> (CppResultCode \<times> 'a MatrixHandle option) \<times> world" where
  "safe_matrix_multiply a b result w =
     (case (a, b) of
        (Some ma, Some mb) \<Rightarrow>
          (case result of
             None \<Rightarrow> ((CPP_NULL_POINTER, result), w)
           | Some _ \<Rightarrow>
               (case Matrix_multiply ma mb of
                  Inr product \<Rightarrow> ((CPP_SUCCESS, Some (Some product)), w)
                | Inl e \<Rightarrow>
                    if is_invalid_argument e
                    then ((CPP_INVALID_OPERATION, result), set_error e w)
                    else ((CPP_UNKNOWN_ERROR, result), set_error e w)))
      | _ \<Rightarrow> ((CPP_NULL_POINTER, result), w))"

definition get_last_error_message :: "world \<Rightarrow> string" where
  "get_last_error_message w = last_error_message w"


subsection \<open>The entry points as one type\<close>

text \<open>
  One constructor per entry point of \<^verbatim>\<open>extern "C"\<close>, with its arguments, grouped as
  the source groups them; \<open>'a\<close> is \<^verbatim>\<open>double\<close> and \<open>'f\<close> is \<^verbatim>\<open>float\<close>. \<open>exec\<close> runs
  a call.
\<close>

datatype vector_op =
    Call_vector_create
  | Call_vector_destroy VectorHandle
  | Call_vector_add VectorHandle int
  | Call_vector_get VectorHandle int
  | Call_vector_size VectorHandle
  | Call_vector_clear VectorHandle
  | Call_vector_sum VectorHandle
  | Call_vector_sort VectorHandle

datatype string_op =
    Call_string_create "string option"
  | Call_string_destroy StringHandle
  | Call_string_get_cstr StringHandle
  | Call_string_append StringHandle "string option"
  | Call_string_prepend StringHandle "string option"
  | Call_string_length_cpp StringHandle
  | Call_string_reverse StringHandle
  | Call_string_to_upper StringHandle
  | Call_string_to_lower StringHandle

datatype ('a, 'f) math_op =
    Call_calculate_mean_double "'a list" int
  | Call_calculate_mean_float "'f list" int
  | Call_calculate_variance "'a list" int
  | Call_calculate_standard_deviation "'a list" int

datatype 'a matrix_op =
    Call_matrix_create int int
  | Call_matrix_destroy "'a MatrixHandle"
  | Call_matrix_set "'a MatrixHandle" int int 'a
  | Call_matrix_get "'a MatrixHandle" int int
  | Call_matrix_rows "'a MatrixHandle"
  | Call_matrix_cols "'a MatrixHandle"
  | Call_matrix_multiply "'a MatrixHandle" "'a MatrixHandle"
  | Call_matrix_transpose "'a MatrixHandle"
  | Call_matrix_print "'a MatrixHandle"

datatype 'a resource_op =
    Call_smart_resource_create int
  | Call_smart_resource_use "'a SmartResourceHandle" int 'a
  | Call_smart_resource_get "'a SmartResourceHandle" int
  | Call_smart_resource_size "'a SmartResourceHandle"

datatype 'a function_op =
    Call_function_create_add
  | Call_function_create_multiply
  | Call_function_create_power
  | Call_function_destroy "'a FunctionHandle"
  | Call_function_call "'a FunctionHandle" 'a 'a

datatype iterator_op =
    Call_iterator_create "int list" int
  | Call_iterator_destroy IteratorHandle
  | Call_iterator_has_next IteratorHandle
  | Call_iterator_next IteratorHandle
  | Call_iterator_reset IteratorHandle
  | Call_iterator_find IteratorHandle int

datatype 'a safe_op =
    Call_safe_vector_get VectorHandle int "int option"
  | Call_safe_matrix_multiply "'a MatrixHandle" "'a MatrixHandle" "'a MatrixHandle option"
  | Call_get_last_error_message

datatype ('a, 'f) call =
    Vector_op vector_op
  | String_op string_op
  | Math_op "('a, 'f) math_op"
  | Matrix_op "'a matrix_op"
  | Resource_op "'a resource_op"
  | Function_op "'a function_op"
  | Iterator_op iterator_op
  | Safe_op "'a safe_op"

datatype ('a, 'f) ret =
    R_void
  | R_int int
  | R_double 'a
  | R_float 'f
  | R_cstr string
  | R_vector VectorHandle
  | R_string StringHandle
  | R_matrix "'a MatrixHandle"
  | R_resource "'a SmartResourceHandle"
  | R_function "'a FunctionHandle"
  | R_iterator IteratorHandle
  | R_int_iterator "int \<times> IteratorHandle"
  | R_code_int "CppResultCode \<times> int option"
  | R_code_matrix "CppResultCode \<times> 'a MatrixHandle option"

primrec exec_vector :: "vector_op \<Rightarrow> world \<Rightarrow> ('a, 'f) ret \<times> world" where
  "exec_vector Call_vector_create w = apfst R_vector (vector_create w)"
| "exec_vector (Call_vector_destroy h) w = (R_void, vector_destroy h w)"
| "exec_vector (Call_vector_add h v) w = apfst R_vector (vector_add h v w)"
| "exec_vector (Call_vector_get h i) w = apfst R_int (vector_get h i w)"
| "exec_vector (Call_vector_size h) w = apfst R_int (vector_size h w)"
| "exec_vector (Call_vector_clear h) w = apfst R_vector (vector_clear h w)"
| "exec_vector (Call_vector_sum h) w = apfst R_int (vector_sum h w)"
| "exec_vector (Call_vector_sort h) w = apfst R_vector (vector_sort h w)"

primrec exec_string :: "string_op \<Rightarrow> world \<Rightarrow> ('a, 'f) ret \<times> world" where
  "exec_string (Call_string_create s) w = apfst R_string (string_create s w)"
| "exec_string (Call_string_destroy h) w = (R_void, string_destroy h w)"
| "exec_string (Call_string_get_cstr h) w = apfst R_cstr (string_get_cstr h w)"
| "exec_string (Call_string_append h t) w = apfst R_string (string_append h t w)"
| "exec_string (Call_string_prepend h t) w = apfst R_string (string_prepend h t w)"
| "exec_string (Call_string_length_cpp h) w = apfst R_int (string_length_cpp h w)"
| "exec_string (Call_string_reverse h) w = apfst R_string (string_reverse h w)"
| "exec_string (Call_string_to_upper h) w = apfst R_string (string_to_upper h w)"
| "exec_string (Call_string_to_lower h) w = apfst R_string (string_to_lower h w)"

primrec exec_math ::
  "('a::division_ring) stdlib \<Rightarrow> ('a, 'f::division_ring) math_op \<Rightarrow> world
     \<Rightarrow> ('a, 'f) ret \<times> world" where
  "exec_math L (Call_calculate_mean_double vs n) w =
     apfst R_double (calculate_mean_double vs n w)"
| "exec_math L (Call_calculate_mean_float vs n) w =
     apfst R_float (calculate_mean_float vs n w)"
| "exec_math L (Call_calculate_variance vs n) w =
     apfst R_double (calculate_variance vs n w)"
| "exec_math L (Call_calculate_standard_deviation vs n) w =
     apfst R_double (calculate_standard_deviation L vs n w)"

primrec exec_matrix ::
  "'a stdlib \<Rightarrow> ('a::{zero,plus,times}) matrix_op \<Rightarrow> world \<Rightarrow> ('a, 'f) ret \<times> world" where
  "exec_matrix L (Call_matrix_create r c) w = apfst R_matrix (matrix_create r c w)"
| "exec_matrix L (Call_matrix_destroy h) w = (R_void, matrix_destroy h w)"
| "exec_matrix L (Call_matrix_set h r c v) w = apfst R_matrix (matrix_set h r c v w)"
| "exec_matrix L (Call_matrix_get h r c) w = apfst R_double (matrix_get h r c w)"
| "exec_matrix L (Call_matrix_rows h) w = apfst R_int (matrix_rows h w)"
| "exec_matrix L (Call_matrix_cols h) w = apfst R_int (matrix_cols h w)"
| "exec_matrix L (Call_matrix_multiply a b) w = apfst R_matrix (matrix_multiply a b w)"
| "exec_matrix L (Call_matrix_transpose h) w = apfst R_matrix (matrix_transpose h w)"
| "exec_matrix L (Call_matrix_print h) w = (R_void, matrix_print L h w)"

primrec exec_resource :: "('a::zero) resource_op \<Rightarrow> world \<Rightarrow> ('a, 'f) ret \<times> world" where
  "exec_resource (Call_smart_resource_create n) w =
     apfst R_resource (smart_resource_create n w)"
| "exec_resource (Call_smart_resource_use h i v) w =
     apfst R_resource (smart_resource_use h i v w)"
| "exec_resource (Call_smart_resource_get h i) w =
     apfst R_double (smart_resource_get h i w)"
| "exec_resource (Call_smart_resource_size h) w =
     apfst R_int (smart_resource_size h w)"

primrec exec_function ::
  "'a stdlib \<Rightarrow> ('a::{zero,plus,times}) function_op \<Rightarrow> world \<Rightarrow> ('a, 'f) ret \<times> world" where
  "exec_function L Call_function_create_add w = apfst R_function (function_create_add w)"
| "exec_function L Call_function_create_multiply w =
     apfst R_function (function_create_multiply w)"
| "exec_function L Call_function_create_power w =
     apfst R_function (function_create_power L w)"
| "exec_function L (Call_function_destroy h) w = (R_void, function_destroy h w)"
| "exec_function L (Call_function_call h a b) w = apfst R_double (function_call h a b w)"

primrec exec_iterator :: "iterator_op \<Rightarrow> world \<Rightarrow> ('a, 'f) ret \<times> world" where
  "exec_iterator (Call_iterator_create xs n) w = apfst R_iterator (iterator_create xs n w)"
| "exec_iterator (Call_iterator_destroy h) w = (R_void, iterator_destroy h w)"
| "exec_iterator (Call_iterator_has_next h) w = apfst R_int (iterator_has_next h w)"
| "exec_iterator (Call_iterator_next h) w = apfst R_int_iterator (iterator_next h w)"
| "exec_iterator (Call_iterator_reset h) w = apfst R_iterator (iterator_reset h w)"
| "exec_iterator (Call_iterator_find h v) w = apfst R_int_iterator (iterator_find h v w)"

primrec exec_safe ::
  "('a::{zero,plus,times}) safe_op \<Rightarrow> world \<Rightarrow> ('a, 'f) ret \<times> world" where
  "exec_safe (Call_safe_vector_get h i r) w = apfst R_code_int (safe_vector_get h i r w)"
| "exec_safe (Call_safe_matrix_multiply a b r) w =
     apfst R_code_matrix (safe_matrix_multiply a b r w)"
| "exec_safe Call_get_last_error_message w = (R_cstr (get_last_error_message w), w)"

primrec exec ::
  "('a::division_ring) stdlib \<Rightarrow> ('a, 'f::division_ring) call \<Rightarrow> world
     \<Rightarrow> ('a, 'f) ret \<times> world" where
  "exec L (Vector_op c) w = exec_vector c w"
| "exec L (String_op c) w = exec_string c w"
| "exec L (Math_op c) w = exec_math L c w"
| "exec L (Matrix_op c) w = exec_matrix L c w"
| "exec L (Resource_op c) w = exec_resource c w"
| "exec L (Function_op c) w = exec_function L c w"
| "exec L (Iterator_op c) w = exec_iterator c w"
| "exec L (Safe_op c) w = exec_safe c w"

text \<open>
  \<open>throws c\<close>: the method that the entry point calls inside its \<^verbatim>\<open>try\<close> block raises
  an exception on the arguments of \<open>c\<close>, that is, the call meets an internal failure.
  A call that stops at a null check runs no method.
\<close>

fun throws :: "('a::division_ring, 'f) call \<Rightarrow> bool" where
  "throws (Vector_op (Call_vector_get (Some v) i)) = isl (VectorWrapper_get v i)"
| "throws (Matrix_op (Call_matrix_create r c)) = isl (Matrix_new r c :: exn + 'a Matrix)"
| "throws (Matrix_op (Call_matrix_set (Some m) r c v)) = isl (Matrix_set m r c v)"
| "throws (Matrix_op (Call_matrix_get (Some m) r c)) = isl (Matrix_get m r c)"
| "throws (Matrix_op (Call_matrix_multiply (Some a) (Some b))) = isl (Matrix_multiply a b)"
| "throws (Matrix_op (Call_matrix_transpose (Some m))) = isl (Matrix_transpose m)"
| "throws (Resource_op (Call_smart_resource_create n)) =
     isl (SmartResource_new n :: exn + 'a SmartResource)"
| "throws (Iterator_op (Call_iterator_create xs n)) = isl (IteratorWrapper_new xs n)"
| "throws (Safe_op (Call_safe_vector_get (Some v) i (Some r))) = isl (VectorWrapper_get v i)"
| "throws (Safe_op (Call_safe_matrix_multiply (Some a) (Some b) (Some r))) =
     isl (Matrix_multiply a b)"
| "throws c = False"


section \<open>The initial state and the class invariant\<close>

text \<open>At program start the file-static \<^verbatim>\<open>last_error_message\<close> is the empty string.\<close>

definition world0 :: world where
  "world0 = \<lparr>last_error_message = [], cout = []\<rparr>"

text \<open>
  The invariant of \<^verbatim>\<open>Matrix\<close>: \<open>data\<close> holds \<open>rows_\<close> rows of \<open>cols_\<close> cells each.
  The members are private; the constructor establishes the invariant and
  \<^verbatim>\<open>set\<close>, \<^verbatim>\<open>multiply\<close> and \<^verbatim>\<open>transpose\<close> keep it (\<open>Matrix_new_wf\<close>,
  \<open>Matrix_set_wf\<close>, \<open>Matrix_multiply_ok\<close>, \<open>Matrix_transpose_ok\<close> below), so it
  holds of every matrix behind a handle. A matrix of shape \<open>m \<times> k\<close> is one with
  \<open>wf_Matrix\<close>, \<open>mrows = m\<close> and \<open>mcols = k\<close>.
\<close>

definition wf_Matrix :: "'a Matrix \<Rightarrow> bool" where
  "wf_Matrix m \<longleftrightarrow>
     0 \<le> mrows m \<and> 0 \<le> mcols m \<and> length (Matrix.data m) = nat (mrows m) \<and>
     (\<forall>r \<in> set (Matrix.data m). length r = nat (mcols m))"

text \<open>
  The scenario of the iterator property: create an iterator over the whole of
  \<open>array\<close>, reset it, search for \<open>val\<close>, then call \<^verbatim>\<open>iterator_next\<close> twice. The result
  is what \<^verbatim>\<open>iterator_find\<close> and the two calls of \<^verbatim>\<open>iterator_next\<close> returned.
\<close>

definition reset_find_next :: "int list \<Rightarrow> int \<Rightarrow> world \<Rightarrow> (int \<times> int \<times> int) \<times> world" where
  "reset_find_next array val w =
     (case iterator_create array (int (length array)) w of (h0, w0) \<Rightarrow>
      case iterator_reset h0 w0 of (h1, w1) \<Rightarrow>
      case iterator_find h1 val w1 of ((found, h2), w2) \<Rightarrow>
      case iterator_next h2 w2 of ((x, h3), w3) \<Rightarrow>
      case iterator_next h3 w3 of ((y, h4), w4) \<Rightarrow>
        ((found, x, y), w4))"

chapter \<open>Properties\<close>

section \<open>The matrix engine\<close>

lemma wf_row_length:
  "wf_Matrix m \<Longrightarrow> 0 \<le> i \<Longrightarrow> i < mrows m \<Longrightarrow> length (Matrix.data m ! nat i) = nat (mcols m)"
  by (simp add: wf_Matrix_def)

lemma Matrix_new_ok:
  fixes rows cols :: int
  assumes "0 \<le> rows" "0 \<le> cols"
  shows "\<exists>m::('a::zero) Matrix. Matrix_new rows cols = Inr m \<and> wf_Matrix m \<and>
           mrows m = rows \<and> mcols m = cols \<and>
           (\<forall>i j. 0 \<le> i \<and> i < rows \<and> 0 \<le> j \<and> j < cols \<longrightarrow> cell m i j = 0)"
  using assms by (simp add: Matrix_new_def wf_Matrix_def cell_def)

lemma Matrix_new_wf:
  "Matrix_new rows cols = Inr m \<Longrightarrow> wf_Matrix m \<and> mrows m = rows \<and> mcols m = cols"
  by (auto simp: Matrix_new_def wf_Matrix_def split: if_splits)

lemma Matrix_get_cell:
  assumes "wf_Matrix m" "0 \<le> i" "i < mrows m" "0 \<le> j" "j < mcols m"
  shows "Matrix_get m i j = Inr (cell m i j)"
  using assms wf_row_length[OF assms(1-3)]
  by (simp add: Matrix_get_def vector_at_def cell_def wf_Matrix_def)

lemma Matrix_set_ok:
  assumes "wf_Matrix m" "0 \<le> i" "i < mrows m" "0 \<le> j" "j < mcols m"
  shows "\<exists>m'. Matrix_set m i j v = Inr m' \<and> wf_Matrix m' \<and>
           mrows m' = mrows m \<and> mcols m' = mcols m \<and>
           (\<forall>p q. 0 \<le> p \<and> 0 \<le> q \<longrightarrow>
              cell m' p q = (if p = i \<and> q = j then v else cell m p q))"
proof -
  let ?r = "Matrix.data m ! nat i"
  let ?m' = "m\<lparr>Matrix.data := (Matrix.data m)[nat i := ?r[nat j := v]]\<rparr>"
  have len: "length (Matrix.data m) = nat (mrows m)" and rl: "length ?r = nat (mcols m)"
    using assms wf_row_length[OF assms(1-3)] by (simp_all add: wf_Matrix_def)
  have set: "Matrix_set m i j v = Inr ?m'"
    using assms len rl by (simp add: Matrix_set_def vector_at_def)
  have wf: "wf_Matrix ?m'"
    using assms(1) rl by (auto simp: wf_Matrix_def dest!: set_update_subset_insert[THEN subsetD])
  have cells: "cell ?m' p q = (if p = i \<and> q = j then v else cell m p q)"
    if "0 \<le> p" "0 \<le> q" for p q
  proof (cases "p = i")
    case True
    with assms len rl that show ?thesis
      by (auto simp: cell_def nth_list_update)
  next
    case False
    with that assms have "nat p \<noteq> nat i" by simp
    with False show ?thesis by (simp add: cell_def)
  qed
  from set wf cells show ?thesis by auto
qed


lemma multiply_k_foldl:
  "0 \<le> k \<Longrightarrow>
   multiply_k this other i j k s =
     foldl (\<lambda>s t. s + cell this i (int t) * cell other (int t) j) s [nat k..<nat (mcols this)]"
proof (induction this other i j k s rule: multiply_k.induct)
  case (1 this other i j k s)
  show ?case
  proof (cases "k < mcols this")
    case True
    with "1.prems" have "[nat k..<nat (mcols this)] = nat k # [nat (k + 1)..<nat (mcols this)]"
      by (simp add: upt_conv_Cons nat_add_distrib)
    with True "1.prems" "1.IH" show ?thesis
      by (subst multiply_k.simps) simp
  next
    case False
    then show ?thesis by (subst multiply_k.simps) simp
  qed
qed

lemma multiply_j_ok:
  assumes "wf_Matrix result" "mcols result = mcols other" "0 \<le> i" "i < mrows result" "0 \<le> j"
  shows "\<exists>r'. multiply_j this other i j result = Inr r' \<and> wf_Matrix r' \<and>
           mrows r' = mrows result \<and> mcols r' = mcols result \<and>
           (\<forall>p q. 0 \<le> p \<and> 0 \<le> q \<longrightarrow>
              cell r' p q =
                (if p = i \<and> j \<le> q \<and> q < mcols other
                 then multiply_k this other i q 0 0 else cell result p q))"
  using assms
proof (induction this other i j result rule: multiply_j.induct)
  case (1 this other i j result)
  show ?case
  proof (cases "j < mcols other")
    case False
    with "1.prems" show ?thesis
      by (subst multiply_j.simps) auto
  next
    case True
    let ?v = "multiply_k this other i j 0 0"
    from Matrix_set_ok[of result i j ?v] "1.prems" True
    obtain m' where set: "Matrix_set result i j ?v = Inr m'" and wf: "wf_Matrix m'"
      and sh: "mrows m' = mrows result" "mcols m' = mcols result"
      and cells: "\<And>p q. 0 \<le> p \<Longrightarrow> 0 \<le> q \<Longrightarrow>
                    cell m' p q = (if p = i \<and> q = j then ?v else cell result p q)"
      by auto
    from "1.IH"[OF True set wf] sh "1.prems"
    obtain r' where run: "multiply_j this other i (j + 1) m' = Inr r'" and wf': "wf_Matrix r'"
      and sh': "mrows r' = mrows m'" "mcols r' = mcols m'"
      and cells': "\<And>p q. 0 \<le> p \<Longrightarrow> 0 \<le> q \<Longrightarrow>
                    cell r' p q =
                      (if p = i \<and> j + 1 \<le> q \<and> q < mcols other
                       then multiply_k this other i q 0 0 else cell m' p q)"
      by auto
    have "multiply_j this other i j result = Inr r'"
      using True set run by (subst multiply_j.simps) simp
    moreover have "cell r' p q =
        (if p = i \<and> j \<le> q \<and> q < mcols other
         then multiply_k this other i q 0 0 else cell result p q)"
      if "0 \<le> p" "0 \<le> q" for p q
      using that cells[of p q] cells'[of p q] True by auto
    ultimately show ?thesis using wf' sh sh' by auto
  qed
qed

lemma multiply_i_ok:
  assumes "wf_Matrix result" "mrows result = mrows this" "mcols result = mcols other" "0 \<le> i"
  shows "\<exists>r'. multiply_i this other i result = Inr r' \<and> wf_Matrix r' \<and>
           mrows r' = mrows result \<and> mcols r' = mcols result \<and>
           (\<forall>p q. 0 \<le> p \<and> 0 \<le> q \<longrightarrow>
              cell r' p q =
                (if i \<le> p \<and> p < mrows this \<and> q < mcols other
                 then multiply_k this other p q 0 0 else cell result p q))"
  using assms
proof (induction this other i result rule: multiply_i.induct)
  case (1 this other i result)
  show ?case
  proof (cases "i < mrows this")
    case False
    with "1.prems" show ?thesis
      by (subst multiply_i.simps) auto
  next
    case True
    from multiply_j_ok[of result other i 0 this] "1.prems" True
    obtain m' where row: "multiply_j this other i 0 result = Inr m'" and wf: "wf_Matrix m'"
      and sh: "mrows m' = mrows result" "mcols m' = mcols result"
      and cells: "\<And>p q. 0 \<le> p \<Longrightarrow> 0 \<le> q \<Longrightarrow>
                    cell m' p q =
                      (if p = i \<and> q < mcols other
                       then multiply_k this other i q 0 0 else cell result p q)"
      by auto
    from "1.IH"[OF True row wf] sh "1.prems"
    obtain r' where run: "multiply_i this other (i + 1) m' = Inr r'" and wf': "wf_Matrix r'"
      and sh': "mrows r' = mrows m'" "mcols r' = mcols m'"
      and cells': "\<And>p q. 0 \<le> p \<Longrightarrow> 0 \<le> q \<Longrightarrow>
                    cell r' p q =
                      (if i + 1 \<le> p \<and> p < mrows this \<and> q < mcols other
                       then multiply_k this other p q 0 0 else cell m' p q)"
      by auto
    have "multiply_i this other i result = Inr r'"
      using True row run by (subst multiply_i.simps) simp
    moreover have "cell r' p q =
        (if i \<le> p \<and> p < mrows this \<and> q < mcols other
         then multiply_k this other p q 0 0 else cell result p q)"
      if "0 \<le> p" "0 \<le> q" for p q
      using that cells[of p q] cells'[of p q] True by auto
    ultimately show ?thesis using wf' sh sh' by auto
  qed
qed


lemma foldl_plus_sum_list:
  fixes f :: "nat \<Rightarrow> 'a::monoid_add"
  shows "foldl (\<lambda>s t. s + f t) s ts = s + sum_list (map f ts)"
  by (induction ts arbitrary: s) (simp_all add: add.assoc)

lemma multiply_k_sum:
  fixes this other :: "('a::semiring_0) Matrix"
  shows "multiply_k this other i j 0 0 =
           (\<Sum>t = 0..<nat (mcols this). cell this i (int t) * cell other (int t) j)"
  by (simp add: multiply_k_foldl foldl_plus_sum_list interv_sum_list_conv_sum_set_nat)

lemma Matrix_multiply_ok:
  assumes "wf_Matrix this" "wf_Matrix other" "mcols this = mrows other"
  shows "\<exists>r. Matrix_multiply this other = Inr r \<and> wf_Matrix r \<and>
           mrows r = mrows this \<and> mcols r = mcols other \<and>
           (\<forall>i j. 0 \<le> i \<and> i < mrows this \<and> 0 \<le> j \<and> j < mcols other \<longrightarrow>
              cell r i j = multiply_k this other i j 0 0)"
proof -
  have nn: "0 \<le> mrows this" "0 \<le> mcols other"
    using assms by (simp_all add: wf_Matrix_def)
  from Matrix_new_ok[OF nn]
  obtain z :: "'a Matrix" where z: "Matrix_new (mrows this) (mcols other) = Inr z"
    "wf_Matrix z" "mrows z = mrows this" "mcols z = mcols other"
    by blast
  from multiply_i_ok[of z this other 0] z
  obtain r where r: "multiply_i this other 0 z = Inr r" "wf_Matrix r"
    "mrows r = mrows z" "mcols r = mcols z"
    and cells: "\<And>p q. 0 \<le> p \<Longrightarrow> 0 \<le> q \<Longrightarrow>
                  cell r p q =
                    (if 0 \<le> p \<and> p < mrows this \<and> q < mcols other
                     then multiply_k this other p q 0 0 else cell z p q)"
    by auto
  have "Matrix_multiply this other = Inr r"
    using assms(3) z(1) r(1) by (simp add: Matrix_multiply_def)
  with r z cells show ?thesis by auto
qed

lemma transpose_j_ok:
  assumes "wf_Matrix result" "mrows result = mcols this" "0 \<le> i" "i < mcols result" "0 \<le> j"
  shows "\<exists>r'. transpose_j this i j result = Inr r' \<and> wf_Matrix r' \<and>
           mrows r' = mrows result \<and> mcols r' = mcols result \<and>
           (\<forall>p q. 0 \<le> p \<and> 0 \<le> q \<longrightarrow>
              cell r' p q =
                (if q = i \<and> j \<le> p \<and> p < mcols this
                 then cell this i p else cell result p q))"
  using assms
proof (induction this i j result rule: transpose_j.induct)
  case (1 this i j result)
  show ?case
  proof (cases "j < mcols this")
    case False
    with "1.prems" show ?thesis
      by (subst transpose_j.simps) auto
  next
    case True
    let ?v = "cell this i j"
    from Matrix_set_ok[of result j i ?v] "1.prems" True
    obtain m' where set: "Matrix_set result j i ?v = Inr m'" and wf: "wf_Matrix m'"
      and sh: "mrows m' = mrows result" "mcols m' = mcols result"
      and cells: "\<And>p q. 0 \<le> p \<Longrightarrow> 0 \<le> q \<Longrightarrow>
                    cell m' p q = (if p = j \<and> q = i then ?v else cell result p q)"
      by auto
    from "1.IH"[OF True set wf] sh "1.prems"
    obtain r' where run: "transpose_j this i (j + 1) m' = Inr r'" and wf': "wf_Matrix r'"
      and sh': "mrows r' = mrows m'" "mcols r' = mcols m'"
      and cells': "\<And>p q. 0 \<le> p \<Longrightarrow> 0 \<le> q \<Longrightarrow>
                    cell r' p q =
                      (if q = i \<and> j + 1 \<le> p \<and> p < mcols this
                       then cell this i p else cell m' p q)"
      by auto
    have "transpose_j this i j result = Inr r'"
      using True set run by (subst transpose_j.simps) simp
    moreover have "cell r' p q =
        (if q = i \<and> j \<le> p \<and> p < mcols this then cell this i p else cell result p q)"
      if "0 \<le> p" "0 \<le> q" for p q
      using that cells[of p q] cells'[of p q] True by auto
    ultimately show ?thesis using wf' sh sh' by auto
  qed
qed

lemma transpose_i_ok:
  assumes "wf_Matrix result" "mrows result = mcols this" "mcols result = mrows this" "0 \<le> i"
  shows "\<exists>r'. transpose_i this i result = Inr r' \<and> wf_Matrix r' \<and>
           mrows r' = mrows result \<and> mcols r' = mcols result \<and>
           (\<forall>p q. 0 \<le> p \<and> 0 \<le> q \<longrightarrow>
              cell r' p q =
                (if i \<le> q \<and> q < mrows this \<and> p < mcols this
                 then cell this q p else cell result p q))"
  using assms
proof (induction this i result rule: transpose_i.induct)
  case (1 this i result)
  show ?case
  proof (cases "i < mrows this")
    case False
    with "1.prems" show ?thesis
      by (subst transpose_i.simps) auto
  next
    case True
    from transpose_j_ok[of result this i 0] "1.prems" True
    obtain m' where col: "transpose_j this i 0 result = Inr m'" and wf: "wf_Matrix m'"
      and sh: "mrows m' = mrows result" "mcols m' = mcols result"
      and cells: "\<And>p q. 0 \<le> p \<Longrightarrow> 0 \<le> q \<Longrightarrow>
                    cell m' p q =
                      (if q = i \<and> p < mcols this then cell this i p else cell result p q)"
      by auto
    from "1.IH"[OF True col wf] sh "1.prems"
    obtain r' where run: "transpose_i this (i + 1) m' = Inr r'" and wf': "wf_Matrix r'"
      and sh': "mrows r' = mrows m'" "mcols r' = mcols m'"
      and cells': "\<And>p q. 0 \<le> p \<Longrightarrow> 0 \<le> q \<Longrightarrow>
                    cell r' p q =
                      (if i + 1 \<le> q \<and> q < mrows this \<and> p < mcols this
                       then cell this q p else cell m' p q)"
      by auto
    have "transpose_i this i result = Inr r'"
      using True col run by (subst transpose_i.simps) simp
    moreover have "cell r' p q =
        (if i \<le> q \<and> q < mrows this \<and> p < mcols this
         then cell this q p else cell result p q)"
      if "0 \<le> p" "0 \<le> q" for p q
      using that cells[of p q] cells'[of p q] True by auto
    ultimately show ?thesis using wf' sh sh' by auto
  qed
qed

lemma Matrix_transpose_ok:
  fixes this :: "('a::zero) Matrix"
  assumes "wf_Matrix this"
  shows "\<exists>r. Matrix_transpose this = Inr r \<and> wf_Matrix r \<and>
           mrows r = mcols this \<and> mcols r = mrows this \<and>
           (\<forall>i j. 0 \<le> i \<and> i < mrows this \<and> 0 \<le> j \<and> j < mcols this \<longrightarrow>
              cell r j i = cell this i j)"
proof -
  have nn: "0 \<le> mcols this" "0 \<le> mrows this"
    using assms by (simp_all add: wf_Matrix_def)
  from Matrix_new_ok[OF nn]
  obtain z :: "'a Matrix" where z: "Matrix_new (mcols this) (mrows this) = Inr z"
    "wf_Matrix z" "mrows z = mcols this" "mcols z = mrows this"
    by blast
  from transpose_i_ok[of z this 0] z
  obtain r where r: "transpose_i this 0 z = Inr r" "wf_Matrix r"
    "mrows r = mrows z" "mcols r = mcols z"
    and cells: "\<And>p q. 0 \<le> p \<Longrightarrow> 0 \<le> q \<Longrightarrow>
                  cell r p q =
                    (if 0 \<le> q \<and> q < mrows this \<and> p < mcols this
                     then cell this q p else cell z p q)"
    by auto
  have "Matrix_transpose this = Inr r"
    using z(1) r(1) by (simp add: Matrix_transpose_def)
  with r z cells show ?thesis by auto
qed

lemma Matrix_eqI:
  fixes m m' :: "'a Matrix"
  assumes "wf_Matrix m" "wf_Matrix m'" "mrows m' = mrows m" "mcols m' = mcols m"
    and cells: "\<And>i j. 0 \<le> i \<Longrightarrow> i < mrows m \<Longrightarrow> 0 \<le> j \<Longrightarrow> j < mcols m \<Longrightarrow>
                 cell m' i j = cell m i j"
  shows "m' = m"
proof -
  have len: "length (Matrix.data m') = length (Matrix.data m)"
    using assms by (simp add: wf_Matrix_def)
  have "Matrix.data m' ! p = Matrix.data m ! p" if p: "p < length (Matrix.data m')" for p
  proof (rule nth_equalityI)
    have pr: "0 \<le> int p" "int p < mrows m" using p assms by (simp_all add: wf_Matrix_def)
    from wf_row_length[OF assms(1) pr] wf_row_length[OF assms(2) pr(1)] pr assms(3,4)
    show l: "length (Matrix.data m' ! p) = length (Matrix.data m ! p)" by simp
    fix q assume "q < length (Matrix.data m' ! p)"
    with wf_row_length[OF assms(2), of "int p"] pr assms(3,4)
    have "int q < mcols m" by simp
    from cells[OF pr _ this] show "Matrix.data m' ! p ! q = Matrix.data m ! p ! q"
      by (simp add: cell_def)
  qed
  with len have "Matrix.data m' = Matrix.data m" by (simp add: nth_equalityI)
  with assms(3,4) show ?thesis by simp
qed

lemma Matrix_transpose_twice:
  fixes this :: "('a::zero) Matrix"
  assumes "wf_Matrix this" "Matrix_transpose this = Inr t"
  shows "Matrix_transpose t = Inr this"
proof -
  from Matrix_transpose_ok[OF assms(1)] assms(2)
  have t: "wf_Matrix t" "mrows t = mcols this" "mcols t = mrows this"
    and tc: "\<And>i j. 0 \<le> i \<Longrightarrow> i < mrows this \<Longrightarrow> 0 \<le> j \<Longrightarrow> j < mcols this \<Longrightarrow>
               cell t j i = cell this i j"
    by auto
  from Matrix_transpose_ok[OF t(1)]
  obtain u where u: "Matrix_transpose t = Inr u" "wf_Matrix u" "mrows u = mcols t"
    "mcols u = mrows t"
    and uc: "\<And>i j. 0 \<le> i \<Longrightarrow> i < mrows t \<Longrightarrow> 0 \<le> j \<Longrightarrow> j < mcols t \<Longrightarrow>
               cell u j i = cell t i j"
    by auto
  have "u = this"
  proof (rule Matrix_eqI[OF assms(1) u(2)])
    show "mrows u = mrows this" "mcols u = mcols this" using u t by simp_all
    fix i j assume "0 \<le> i" "i < mrows this" "0 \<le> j" "j < mcols this"
    then show "cell u i j = cell this i j"
      using uc[of j i] tc[of i j] t by simp
  qed
  with u(1) show ?thesis by simp
qed

lemma Matrix_set_wf:
  assumes "wf_Matrix m" "Matrix_set m i j v = Inr m'"
  shows "wf_Matrix m' \<and> mrows m' = mrows m \<and> mcols m' = mcols m"
proof -
  from assms(2) have "0 \<le> i \<and> i < int (length (Matrix.data m))"
    by (auto simp: Matrix_set_def vector_at_def split: if_splits sum.splits)
  moreover from this assms have "0 \<le> j \<and> j < int (length (Matrix.data m ! nat i))"
    by (auto simp: Matrix_set_def vector_at_def split: if_splits sum.splits)
  ultimately have "0 \<le> i" "i < mrows m" "0 \<le> j" "j < mcols m"
    using assms(1) by (auto simp: wf_Matrix_def)
  from Matrix_set_ok[OF assms(1) this, of v] assms(2) show ?thesis by auto
qed

text \<open>
  \<^bold>\<open>Claim C10.\<close> A matrix freshly created by \<open>matrix_create rows cols\<close> with non-negative
  dimensions exists (the handle is not null, nothing is recorded), and \<open>matrix_get\<close>
  returns \<open>0\<close> for every cell \<open>0 \<le> r < rows\<close>, \<open>0 \<le> c < cols\<close>, again recording nothing.
\<close>

theorem matrix_create_zero_initialized:
  fixes rows cols :: int
  assumes "0 \<le> rows" "0 \<le> cols"
  shows "\<exists>m. matrix_create rows cols w = (Some m, w) \<and>
           (\<forall>r c. 0 \<le> r \<and> r < rows \<and> 0 \<le> c \<and> c < cols \<longrightarrow>
              matrix_get (Some m) r c w = (0 :: 'a::zero, w))"
proof -
  from Matrix_new_ok[OF assms]
  obtain m :: "'a Matrix" where m: "Matrix_new rows cols = Inr m" "wf_Matrix m"
    "mrows m = rows" "mcols m = cols"
    and z: "\<And>i j. 0 \<le> i \<Longrightarrow> i < rows \<Longrightarrow> 0 \<le> j \<Longrightarrow> j < cols \<Longrightarrow> cell m i j = 0"
    by blast
  have "matrix_create rows cols w = (Some m, w)"
    using m(1) by (simp add: matrix_create_def)
  moreover have "matrix_get (Some m) r c w = (0, w)"
    if "0 \<le> r" "r < rows" "0 \<le> c" "c < cols" for r c
    using Matrix_get_cell[of m r c] m that z[of r c] by (simp add: matrix_get_def)
  ultimately show ?thesis by blast
qed

theorem matrix_create_zero_initialized_witness:
  "(0::int) \<le> 2 \<and> (0::int) \<le> 3 \<and>
   (\<exists>m. matrix_create 2 3 world0 = (Some m, world0) \<and>
        matrix_get (Some m) 1 2 world0 = (0 :: int, world0))"
  using matrix_create_zero_initialized[of 2 3 world0, where 'a = int] by auto

text \<open>
  \<^bold>\<open>Claim C4.\<close> For a well-formed matrix \<open>A\<close>, \<open>matrix_transpose\<close> succeeds with a
  matrix \<open>T\<close> of shape \<open>A.cols \<times> A.rows\<close> whose cell \<open>(j, i)\<close> is \<open>A[i, j]\<close>, and
  transposing \<open>T\<close> gives back \<open>A\<close> itself: the same shape and the same cells.
\<close>

theorem matrix_transpose_involution:
  fixes A :: "('a::zero) Matrix"
  assumes "wf_Matrix A"
  shows "\<exists>T. matrix_transpose (Some A) w = (Some T, w) \<and>
           matrix_rows (Some T) w = (mcols A, w) \<and> matrix_cols (Some T) w = (mrows A, w) \<and>
           (\<forall>i j. 0 \<le> i \<and> i < mrows A \<and> 0 \<le> j \<and> j < mcols A \<longrightarrow>
              matrix_get (Some T) j i w = (cell A i j, w) \<and>
              matrix_get (Some A) i j w = (cell A i j, w)) \<and>
           matrix_transpose (Some T) w = (Some A, w)"
proof -
  from Matrix_transpose_ok[OF assms]
  obtain T where T: "Matrix_transpose A = Inr T" "wf_Matrix T" "mrows T = mcols A"
    "mcols T = mrows A"
    and c: "\<And>i j. 0 \<le> i \<Longrightarrow> i < mrows A \<Longrightarrow> 0 \<le> j \<Longrightarrow> j < mcols A \<Longrightarrow>
              cell T j i = cell A i j"
    by auto
  have 1: "matrix_transpose (Some A) w = (Some T, w)"
    using T(1) by (simp add: matrix_transpose_def)
  have 2: "matrix_rows (Some T) w = (mcols A, w)" "matrix_cols (Some T) w = (mrows A, w)"
    using T by (simp_all add: matrix_rows_def matrix_cols_def Matrix_rows_def Matrix_cols_def)
  have 3: "matrix_get (Some T) j i w = (cell A i j, w) \<and>
           matrix_get (Some A) i j w = (cell A i j, w)"
    if "0 \<le> i" "i < mrows A" "0 \<le> j" "j < mcols A" for i j
    using Matrix_get_cell[of T j i] Matrix_get_cell[of A i j] T assms that c[of i j]
    by (simp add: matrix_get_def)
  have 4: "matrix_transpose (Some T) w = (Some A, w)"
    using Matrix_transpose_twice[OF assms T(1)] by (simp add: matrix_transpose_def)
  from 1 2 3 4 show ?thesis by blast
qed

theorem matrix_transpose_involution_witness:
  "wf_Matrix \<lparr>Matrix.data = [[1, 2, 3], [4, 5, 6 :: int]], mrows = 2, mcols = 3\<rparr> \<and>
   (\<exists>T. matrix_transpose (Some \<lparr>Matrix.data = [[1, 2, 3], [4, 5, 6 :: int]], mrows = 2, mcols = 3\<rparr>)
           world0 = (Some T, world0) \<and>
        matrix_rows (Some T) world0 = (3, world0) \<and>
        matrix_cols (Some T) world0 = (2, world0) \<and>
        matrix_get (Some T) 2 1 world0 = (6, world0) \<and>
        matrix_transpose (Some T) world0 =
          (Some \<lparr>Matrix.data = [[1, 2, 3], [4, 5, 6]], mrows = 2, mcols = 3\<rparr>, world0))"
proof -
  let ?A = "\<lparr>Matrix.data = [[1, 2, 3], [4, 5, 6 :: int]], mrows = 2, mcols = 3\<rparr>"
  have wf: "wf_Matrix ?A" by (simp add: wf_Matrix_def)
  from matrix_transpose_involution[OF wf, of world0]
  obtain T where T: "matrix_transpose (Some ?A) world0 = (Some T, world0)"
    "matrix_rows (Some T) world0 = (mcols ?A, world0)"
    "matrix_cols (Some T) world0 = (mrows ?A, world0)"
    "matrix_transpose (Some T) world0 = (Some ?A, world0)"
    and g: "\<And>i j. 0 \<le> i \<Longrightarrow> i < mrows ?A \<Longrightarrow> 0 \<le> j \<Longrightarrow> j < mcols ?A \<Longrightarrow>
              matrix_get (Some T) j i world0 = (cell ?A i j, world0)"
    by blast
  from g[of 1 2] have "matrix_get (Some T) 2 1 world0 = (6, world0)"
    by (simp add: cell_def)
  with wf T show ?thesis by auto
qed

text \<open>
  \<^bold>\<open>Claim C1.\<close> For well-formed matrices \<open>A\<close> (\<open>m \<times> k\<close>) and \<open>B\<close> (\<open>k \<times> n\<close>),
  \<open>matrix_multiply\<close> (and \<open>safe_matrix_multiply\<close>, with code \<open>CPP_SUCCESS\<close>) succeeds,
  the result has shape \<open>m \<times> n\<close>, and its cell \<open>(i, j)\<close> is the dot-product sum of the
  products \<open>A[i, t] * B[t, j]\<close>, added up from \<open>0\<close> in the order \<open>t = 0, ..., k - 1\<close>
  with the \<open>+\<close> and \<open>*\<close> of the cell type. No law of arithmetic is assumed (the sort
  is \<open>{zero, plus, times}\<close>), so the statement covers the rounding addition and
  multiplication of \<^verbatim>\<open>double\<close>, for which the order of the additions matters.
\<close>

theorem matrix_multiply_dot_product:
  fixes A B :: "('a::{zero,plus,times}) Matrix"
  assumes "wf_Matrix A" "wf_Matrix B" "mcols A = mrows B"
  shows "\<exists>C. matrix_multiply (Some A) (Some B) w = (Some C, w) \<and>
           safe_matrix_multiply (Some A) (Some B) (Some out) w =
             ((CPP_SUCCESS, Some (Some C)), w) \<and>
           matrix_rows (Some C) w = (mrows A, w) \<and> matrix_cols (Some C) w = (mcols B, w) \<and>
           (\<forall>i j. 0 \<le> i \<and> i < mrows A \<and> 0 \<le> j \<and> j < mcols B \<longrightarrow>
              matrix_get (Some C) i j w =
                (foldl (\<lambda>s t. s + cell A i (int t) * cell B (int t) j) 0
                   [0..<nat (mcols A)], w))"
proof -
  from Matrix_multiply_ok[OF assms]
  obtain C where C: "Matrix_multiply A B = Inr C" "wf_Matrix C" "mrows C = mrows A"
    "mcols C = mcols B"
    and c: "\<And>i j. 0 \<le> i \<Longrightarrow> i < mrows A \<Longrightarrow> 0 \<le> j \<Longrightarrow> j < mcols B \<Longrightarrow>
              cell C i j = multiply_k A B i j 0 0"
    by auto
  have 1: "matrix_multiply (Some A) (Some B) w = (Some C, w)"
    using C(1) by (simp add: matrix_multiply_def)
  have 2: "safe_matrix_multiply (Some A) (Some B) (Some out) w =
             ((CPP_SUCCESS, Some (Some C)), w)"
    using C(1) by (simp add: safe_matrix_multiply_def)
  have 3: "matrix_rows (Some C) w = (mrows A, w)" "matrix_cols (Some C) w = (mcols B, w)"
    using C by (simp_all add: matrix_rows_def matrix_cols_def Matrix_rows_def Matrix_cols_def)
  have 4: "matrix_get (Some C) i j w =
             (foldl (\<lambda>s t. s + cell A i (int t) * cell B (int t) j) 0
                [0..<nat (mcols A)], w)"
    if "0 \<le> i" "i < mrows A" "0 \<le> j" "j < mcols B" for i j
    using Matrix_get_cell[of C i j] C that c[of i j] multiply_k_foldl[of 0 A B i j 0]
    by (simp add: matrix_get_def)
  from 1 2 3 4 show ?thesis by blast
qed

theorem matrix_multiply_dot_product_witness:
  "wf_Matrix \<lparr>Matrix.data = [[1, 2, 3], [4, 5, 6 :: int]], mrows = 2, mcols = 3\<rparr> \<and>
   wf_Matrix \<lparr>Matrix.data = [[1], [0], [2 :: int]], mrows = 3, mcols = 1\<rparr> \<and>
   mcols \<lparr>Matrix.data = [[1, 2, 3], [4, 5, 6 :: int]], mrows = 2, mcols = 3\<rparr> =
     mrows \<lparr>Matrix.data = [[1], [0], [2 :: int]], mrows = 3, mcols = 1\<rparr> \<and>
   (\<exists>C. matrix_multiply
          (Some \<lparr>Matrix.data = [[1, 2, 3], [4, 5, 6 :: int]], mrows = 2, mcols = 3\<rparr>)
          (Some \<lparr>Matrix.data = [[1], [0], [2]], mrows = 3, mcols = 1\<rparr>) world0 = (Some C, world0) \<and>
        matrix_rows (Some C) world0 = (2, world0) \<and>
        matrix_cols (Some C) world0 = (1, world0) \<and>
        matrix_get (Some C) 0 0 world0 = (7, world0) \<and>
        matrix_get (Some C) 1 0 world0 = (16, world0))"
proof -
  let ?A = "\<lparr>Matrix.data = [[1, 2, 3], [4, 5, 6 :: int]], mrows = 2, mcols = 3\<rparr>"
  let ?B = "\<lparr>Matrix.data = [[1], [0], [2 :: int]], mrows = 3, mcols = 1\<rparr>"
  have wf: "wf_Matrix ?A" "wf_Matrix ?B" and sh: "mcols ?A = mrows ?B"
    by (simp_all add: wf_Matrix_def)
  from matrix_multiply_dot_product[OF wf sh, where w = world0 and out = None]
  obtain C where C: "matrix_multiply (Some ?A) (Some ?B) world0 = (Some C, world0)"
    "matrix_rows (Some C) world0 = (mrows ?A, world0)"
    "matrix_cols (Some C) world0 = (mcols ?B, world0)"
    and g: "\<And>i j. 0 \<le> i \<Longrightarrow> i < mrows ?A \<Longrightarrow> 0 \<le> j \<Longrightarrow> j < mcols ?B \<Longrightarrow>
              matrix_get (Some C) i j world0 =
                (foldl (\<lambda>s t. s + cell ?A i (int t) * cell ?B (int t) j) 0
                   [0..<nat (mcols ?A)], world0)"
    by blast
  have u: "[0..<3::nat] = [0, 1, 2]" by (simp add: upt_rec)
  from g[of 0 0] g[of 1 0]
  have "matrix_get (Some C) 0 0 world0 = (7, world0)"
    "matrix_get (Some C) 1 0 world0 = (16, world0)"
    by (simp_all add: cell_def u)
  with wf sh C show ?thesis by auto
qed

text \<open>
  Where addition is exact (a commutative monoid, as in any semiring), adding up in
  order is the sum \<open>\<Sum>t<k. A[i, t] * B[t, j]\<close>.
\<close>

lemma in_order_sum_exact:
  fixes f :: "nat \<Rightarrow> 'a::comm_monoid_add"
  shows "foldl (\<lambda>s t. s + f t) 0 [0..<n] = (\<Sum>t = 0..<n. f t)"
  by (simp add: foldl_plus_sum_list interv_sum_list_conv_sum_set_nat)

text \<open>The code run on the matrices of the witness.\<close>

lemma concrete_multiply:
  "Matrix_multiply \<lparr>Matrix.data = [[1, 2, 3], [4, 5, 6 :: int]], mrows = 2, mcols = 3\<rparr>
      \<lparr>Matrix.data = [[1], [0], [2 :: int]], mrows = 3, mcols = 1\<rparr> =
   Inr \<lparr>Matrix.data = [[7], [16]], mrows = 2, mcols = 1\<rparr>"
  by code_simp

text \<open>
  \<^bold>\<open>Claim C2.\<close> For matrices \<open>A\<close> and \<open>B\<close> with \<open>A.cols \<noteq> B.rows\<close>,
  \<open>safe_matrix_multiply\<close> returns \<open>CPP_INVALID_OPERATION\<close> (\<open>-3\<close>) and leaves the cell
  behind its out-parameter as it was, \<open>matrix_multiply\<close> returns the null handle, and
  each records the message of the exception in \<open>last_error_message\<close>. Both return:
  the exception is caught inside the entry point.
\<close>

theorem matrix_multiply_shape_mismatch:
  fixes A B :: "('a::{zero,plus,times}) Matrix"
  assumes "mcols A \<noteq> mrows B"
  shows "safe_matrix_multiply (Some A) (Some B) (Some out) w =
           ((CPP_INVALID_OPERATION, Some out),
            w\<lparr>last_error_message := ''Matrix dimensions don't match for multiplication''\<rparr>) \<and>
         code_value CPP_INVALID_OPERATION = -3 \<and>
         matrix_multiply (Some A) (Some B) w =
           (None, w\<lparr>last_error_message := ''Matrix dimensions don't match for multiplication''\<rparr>)"
  using assms
  by (simp add: safe_matrix_multiply_def matrix_multiply_def Matrix_multiply_def set_error_def)

theorem matrix_multiply_shape_mismatch_witness:
  "mcols \<lparr>Matrix.data = [[1, 2, 3], [4, 5, 6 :: int]], mrows = 2, mcols = 3\<rparr> \<noteq>
     mrows \<lparr>Matrix.data = [[1, 2], [3, 4 :: int]], mrows = 2, mcols = 2\<rparr> \<and>
   safe_matrix_multiply
     (Some \<lparr>Matrix.data = [[1, 2, 3], [4, 5, 6 :: int]], mrows = 2, mcols = 3\<rparr>)
     (Some \<lparr>Matrix.data = [[1, 2], [3, 4]], mrows = 2, mcols = 2\<rparr>) (Some None) world0 =
       ((CPP_INVALID_OPERATION, Some None),
        \<lparr>last_error_message = ''Matrix dimensions don't match for multiplication'', cout = []\<rparr>) \<and>
   matrix_multiply
     (Some \<lparr>Matrix.data = [[1, 2, 3], [4, 5, 6 :: int]], mrows = 2, mcols = 3\<rparr>)
     (Some \<lparr>Matrix.data = [[1, 2], [3, 4]], mrows = 2, mcols = 2\<rparr>) world0 =
       (None, \<lparr>last_error_message = ''Matrix dimensions don't match for multiplication'', cout = []\<rparr>)"
  using matrix_multiply_shape_mismatch
    [of "\<lparr>Matrix.data = [[1, 2, 3], [4, 5, 6 :: int]], mrows = 2, mcols = 3\<rparr>"
        "\<lparr>Matrix.data = [[1, 2], [3, 4 :: int]], mrows = 2, mcols = 2\<rparr>" None world0]
  by (simp add: world0_def)

section \<open>The sequence resource\<close>

lemma show_nat_nonempty: "show_nat n \<noteq> []"
  by (subst show_nat.simps) simp

lemma range_check_msg_nonempty: "range_check_msg n sz \<noteq> []"
  by (simp add: range_check_msg_def)

text \<open>
  \<^bold>\<open>Claim C5.\<close> For a non-null sequence handle, a non-null out-parameter and an index
  outside \<open>[0, size)\<close>, \<open>safe_vector_get\<close> returns \<open>CPP_OUT_OF_BOUNDS\<close> (\<open>-2\<close>), leaves
  the cell behind the out-parameter as it was, and \<open>get_last_error_message\<close> is not
  empty afterwards.
\<close>

theorem safe_vector_get_out_of_bounds:
  assumes "\<not> (0 \<le> index \<and> index < VectorWrapper_size v)"
  shows "safe_vector_get (Some v) index (Some out) w =
           ((CPP_OUT_OF_BOUNDS, Some out),
            w\<lparr>last_error_message := range_check_msg index (length (VectorWrapper.data v))\<rparr>) \<and>
         code_value CPP_OUT_OF_BOUNDS = -2 \<and>
         get_last_error_message (snd (safe_vector_get (Some v) index (Some out) w)) \<noteq> []"
  using assms
  by (simp add: safe_vector_get_def VectorWrapper_get_def VectorWrapper_size_def vector_at_def
      set_error_def get_last_error_message_def range_check_msg_nonempty)

lemma range_check_msg_5_2:
  "range_check_msg 5 (length (VectorWrapper.data \<lparr>VectorWrapper.data = [10, 20]\<rparr>)) =
     ''vector::_M_range_check: __n (which is 5) >= this->size() (which is 2)''"
  by code_simp

theorem safe_vector_get_out_of_bounds_witness:
  "\<not> (0 \<le> (5::int) \<and> 5 < VectorWrapper_size \<lparr>VectorWrapper.data = [10, 20]\<rparr>) \<and>
   safe_vector_get (Some \<lparr>VectorWrapper.data = [10, 20]\<rparr>) 5 (Some 77) world0 =
     ((CPP_OUT_OF_BOUNDS, Some 77),
      \<lparr>last_error_message =
         ''vector::_M_range_check: __n (which is 5) >= this->size() (which is 2)'',
       cout = []\<rparr>) \<and>
   get_last_error_message
     (snd (safe_vector_get (Some \<lparr>VectorWrapper.data = [10, 20]\<rparr>) 5 (Some 77) world0)) \<noteq> []"
proof -
  have h: "\<not> (0 \<le> (5::int) \<and> 5 < VectorWrapper_size \<lparr>VectorWrapper.data = [10, 20]\<rparr>)"
    by (simp add: VectorWrapper_size_def)
  have w: "world0\<lparr>last_error_message := s\<rparr> = \<lparr>last_error_message = s, cout = []\<rparr>" for s
    by (simp add: world0_def)
  from safe_vector_get_out_of_bounds[OF h, of 77 world0] h show ?thesis
    unfolding range_check_msg_5_2 w by blast
qed

section \<open>The numeric buffer\<close>

text \<open>
  \<^bold>\<open>Claim C7.\<close> For a buffer \<open>r\<close> and an index outside \<open>[0, size)\<close>,
  \<open>smart_resource_get\<close> returns \<open>0\<close>, \<open>smart_resource_use\<close> leaves the buffer as it
  was, and neither changes the process state: no message is recorded.
\<close>

theorem smart_resource_out_of_range_silent:
  fixes r :: "('a::zero) SmartResource"
  assumes "\<not> (0 \<le> index \<and> index < rsize r)"
  shows "smart_resource_get (Some r) index w = (0, w) \<and>
         smart_resource_use (Some r) index val w = (Some r, w)"
  using assms
  by (auto simp: smart_resource_get_def smart_resource_use_def
      SmartResource_get_def SmartResource_set_def)

lemma SmartResource_new_3:
  "SmartResource_new 3 = Inr \<lparr>SmartResource.data = [0, 0, 0 :: int], rsize = 3\<rparr>"
  by code_simp

theorem smart_resource_out_of_range_silent_witness:
  "\<not> (0 \<le> (3::int) \<and> 3 < rsize \<lparr>SmartResource.data = [1, 2, 3 :: int], rsize = 3\<rparr>) \<and>
   smart_resource_get (Some \<lparr>SmartResource.data = [1, 2, 3 :: int], rsize = 3\<rparr>) 3 world0 =
     (0, world0) \<and>
   smart_resource_use (Some \<lparr>SmartResource.data = [1, 2, 3 :: int], rsize = 3\<rparr>) 3 9 world0 =
     (Some \<lparr>SmartResource.data = [1, 2, 3], rsize = 3\<rparr>, world0)"
  using smart_resource_out_of_range_silent
    [of 3 "\<lparr>SmartResource.data = [1, 2, 3 :: int], rsize = 3\<rparr>" world0 9]
  by simp

section \<open>The iterator\<close>

lemma std_find_le: "std_find xs v \<le> length xs"
  by (induction xs) auto

lemma std_find_nth: "std_find xs v < length xs \<Longrightarrow> xs ! std_find xs v = v"
  by (induction xs) (auto split: if_splits)

lemma std_find_first: "i < std_find xs v \<Longrightarrow> xs ! i \<noteq> v"
  by (induction xs arbitrary: i) (auto simp: nth_Cons' split: if_splits)

lemma std_find_mem: "v \<in> set xs \<longleftrightarrow> std_find xs v \<noteq> length xs"
  by (induction xs) auto

lemma iterator_find_found_next:
  assumes "v \<in> set (IteratorWrapper.data it)"
  shows "\<exists>it'. iterator_find (Some it) v w = ((1, Some it'), w) \<and>
           fst (fst (iterator_next (Some it') w)) = v"
  using assms std_find_nth[of "IteratorWrapper.data it" v] std_find_le[of "IteratorWrapper.data it" v]
  by (auto simp: iterator_find_def IteratorWrapper_find_def Let_def std_find_mem
      iterator_next_def IteratorWrapper_next_def IteratorWrapper_has_next_def)

lemma iterator_find_missing:
  assumes "v \<notin> set (IteratorWrapper.data it)"
  shows "iterator_find (Some it) v w = ((0, Some it), w)"
  using assms
  by (auto simp: iterator_find_def IteratorWrapper_find_def Let_def std_find_mem)

text \<open>
  \<^bold>\<open>Claim C3\<close>, as stated: on the iterator over \<open>[5, 7, 9]\<close>, after a reset, the call
  of \<^verbatim>\<open>iterator_next\<close> that follows \<open>iterator_find 7\<close> yields \<open>9\<close>. It does not:
  \<^verbatim>\<open>find\<close> leaves the cursor on the match.
\<close>

theorem iterator_find_then_next_counterexample:
  "fst (snd (fst (reset_find_next [5, 7, 9] 7 world0))) \<noteq> 9"
  by (simp add: reset_find_next_def iterator_create_def IteratorWrapper_new_def
      iterator_reset_def IteratorWrapper_reset_def iterator_find_def IteratorWrapper_find_def
      iterator_next_def IteratorWrapper_next_def IteratorWrapper_has_next_def)

text \<open>
  \<^bold>\<open>Claim C3\<close>, amended: \<open>iterator_find 7\<close> returns \<open>1\<close> and moves the cursor onto the
  match, so the call of \<^verbatim>\<open>iterator_next\<close> that follows yields \<open>7\<close>, the matched
  element, and the one after it yields \<open>9\<close>; nothing is recorded.
\<close>

theorem iterator_find_next_yields_match:
  "reset_find_next [5, 7, 9] 7 w = ((1, 7, 9), w)"
  by (simp add: reset_find_next_def iterator_create_def IteratorWrapper_new_def
      iterator_reset_def IteratorWrapper_reset_def iterator_find_def IteratorWrapper_find_def
      iterator_next_def IteratorWrapper_next_def IteratorWrapper_has_next_def)

section \<open>The statistics helpers\<close>

text \<open>
  \<^bold>\<open>Claim C9.\<close> With \<open>count \<le> 0\<close>, \<open>calculate_mean_double\<close>, \<open>calculate_mean_float\<close>
  and \<open>calculate_variance\<close> return \<open>0\<close>; with \<open>count = 1\<close>, \<open>calculate_variance\<close>
  returns \<open>0\<close> whatever the element is. The element type is any division ring, in
  which \<open>0 + v = v\<close>, \<open>v / 1 = v\<close> and \<open>v - v = 0\<close> hold as they do for a finite
  \<^verbatim>\<open>double\<close>.
\<close>

theorem statistics_empty_and_single:
  fixes vs rest :: "('a::division_ring) list" and fs :: "('f::division_ring) list"
  shows "(count \<le> 0 \<longrightarrow>
            calculate_mean_double vs count w = (0, w) \<and>
            calculate_mean_float fs count w = (0, w) \<and>
            calculate_variance vs count w = (0, w)) \<and>
         calculate_variance (v # rest) 1 w = (0, w)"
  by (simp add: calculate_mean_double_def calculate_mean_float_def calculate_variance_def
      calculate_mean_template_def calculate_variance_template_def)

theorem statistics_empty_and_single_witness:
  "(0::int) \<le> 0 \<and>
   calculate_mean_double ([] :: real list) 0 world0 = (0, world0) \<and>
   calculate_mean_float ([] :: real list) 0 world0 = (0, world0) \<and>
   calculate_variance ([] :: real list) 0 world0 = (0, world0) \<and>
   calculate_variance [2.5 :: real] 1 world0 = (0, world0)"
  using statistics_empty_and_single
    [where count = 0 and vs = "[] :: real list" and fs = "[] :: real list" and w = world0
       and v = "2.5" and rest = "[]"]
  by simp

section \<open>Null handles\<close>

text \<open>
  \<^bold>\<open>Claim C6.\<close> Called with the null handle, every accessor returns its sentinel
  (\<open>0\<close> for an \<^verbatim>\<open>int\<close>, \<open>0.0\<close> for a \<^verbatim>\<open>double\<close>, the empty string for text) and
  every mutator returns with the handle still null; the process state, and with it
  \<open>last_error_message\<close>, is as before. There is no object behind \<open>None\<close> to read.
\<close>

theorem null_handle_sentinels:
  fixes a b val :: "'a::zero" and L :: "'a stdlib"
  shows
    "vector_get None i w = (0, w) \<and> vector_size None w = (0, w) \<and>
     vector_sum None w = (0, w) \<and>
     string_get_cstr None w = ([], w) \<and> string_length_cpp None w = (0, w) \<and>
     matrix_get None r c w = (0 :: 'a, w) \<and> matrix_rows None w = (0, w) \<and>
     matrix_cols None w = (0, w) \<and>
     smart_resource_get None i w = (0 :: 'a, w) \<and> smart_resource_size None w = (0, w) \<and>
     function_call None a b w = (0, w) \<and>
     iterator_has_next None w = (0, w) \<and> iterator_next None w = ((0, None), w) \<and>
     iterator_find None i w = ((0, None), w) \<and>
     vector_add None i w = (None, w) \<and> vector_clear None w = (None, w) \<and>
     vector_sort None w = (None, w) \<and>
     string_append None txt w = (None, w) \<and> string_prepend None txt w = (None, w) \<and>
     string_reverse None w = (None, w) \<and> string_to_upper None w = (None, w) \<and>
     string_to_lower None w = (None, w) \<and>
     matrix_set None r c val w = (None, w) \<and> matrix_print L None w = w \<and>
     smart_resource_use None i val w = (None, w) \<and>
     iterator_reset None w = (None, w)"
  by (simp add: vector_get_def vector_size_def vector_sum_def string_get_cstr_def
      string_length_cpp_def matrix_get_def matrix_rows_def matrix_cols_def
      smart_resource_get_def smart_resource_size_def function_call_def iterator_has_next_def
      iterator_next_def iterator_find_def vector_add_def vector_clear_def vector_sort_def
      string_append_def string_prepend_def string_reverse_def string_to_upper_def
      string_to_lower_def matrix_set_def matrix_print_def smart_resource_use_def
      iterator_reset_def)

text \<open>
  The entry points that return a handle or a result code, and \<^verbatim>\<open>delete\<close>, on the null
  handle: a null handle, \<open>CPP_NULL_POINTER\<close>, and no effect.
\<close>

lemma null_handle_other:
  fixes b :: "('a::{zero,plus,times}) MatrixHandle"
  shows
    "matrix_multiply None b w = (None, w) \<and> matrix_multiply b None w = (None, w) \<and>
     matrix_transpose (None :: 'a MatrixHandle) w = (None, w) \<and>
     safe_vector_get None i out w = ((CPP_NULL_POINTER, out), w) \<and>
     safe_matrix_multiply None b mout w = ((CPP_NULL_POINTER, mout), w) \<and>
     safe_matrix_multiply b None mout w = ((CPP_NULL_POINTER, mout), w) \<and>
     vector_destroy None w = w \<and> string_destroy None w = w \<and>
     matrix_destroy (None :: 'a MatrixHandle) w = w \<and>
     function_destroy (None :: 'a FunctionHandle) w = w \<and> iterator_destroy None w = w"
  by (simp add: matrix_multiply_def matrix_transpose_def safe_vector_get_def
      safe_matrix_multiply_def vector_destroy_def string_destroy_def matrix_destroy_def
      function_destroy_def iterator_destroy_def split: option.splits)

section \<open>The error channel\<close>

lemma exec_vector_frame:
  "\<not> throws (Vector_op c :: ('a::division_ring, 'f) call) \<Longrightarrow>
   last_error_message (snd (exec_vector c w :: ('a, 'f) ret \<times> world)) = last_error_message w"
  by (cases c)
    (auto simp: vector_create_def vector_destroy_def vector_add_def vector_get_def
      vector_size_def vector_clear_def vector_sum_def vector_sort_def
      split: option.splits sum.splits)

lemma exec_string_frame:
  "last_error_message (snd (exec_string c w)) = last_error_message w"
  by (cases c)
    (auto simp: string_create_def string_destroy_def string_get_cstr_def string_append_def
      string_prepend_def string_length_cpp_def string_reverse_def string_to_upper_def
      string_to_lower_def split: option.splits)

lemma exec_math_frame:
  "last_error_message (snd (exec_math L c w)) = last_error_message w"
  by (cases c)
    (auto simp: calculate_mean_double_def calculate_mean_float_def calculate_variance_def
      calculate_standard_deviation_def)

lemma exec_matrix_frame:
  fixes c :: "('a::division_ring) matrix_op"
  shows "\<not> throws (Matrix_op c :: ('a, 'f) call) \<Longrightarrow>
   last_error_message (snd (exec_matrix L c w :: ('a, 'f) ret \<times> world)) = last_error_message w"
  by (cases c)
    (auto simp: matrix_create_def matrix_destroy_def matrix_set_def matrix_get_def
      matrix_rows_def matrix_cols_def matrix_multiply_def matrix_transpose_def
      matrix_print_def split: option.splits sum.splits)

lemma exec_resource_frame:
  fixes c :: "('a::division_ring) resource_op"
  shows "\<not> throws (Resource_op c :: ('a, 'f) call) \<Longrightarrow>
   last_error_message (snd (exec_resource c w :: ('a, 'f) ret \<times> world)) = last_error_message w"
  by (cases c)
    (auto simp: smart_resource_create_def smart_resource_use_def smart_resource_get_def
      smart_resource_size_def split: option.splits sum.splits)

lemma exec_function_frame:
  "last_error_message (snd (exec_function L c w)) = last_error_message w"
  by (cases c)
    (auto simp: function_create_add_def function_create_multiply_def
      function_create_power_def function_destroy_def function_call_def split: option.splits)

lemma exec_iterator_frame:
  "\<not> throws (Iterator_op c :: ('a::division_ring, 'f) call) \<Longrightarrow>
   last_error_message (snd (exec_iterator c w :: ('a, 'f) ret \<times> world)) = last_error_message w"
  by (cases c)
    (auto simp: iterator_create_def iterator_destroy_def iterator_has_next_def
      iterator_next_def iterator_reset_def iterator_find_def
      split: option.splits sum.splits prod.splits)

lemma exec_safe_frame:
  fixes c :: "('a::division_ring) safe_op"
  shows "\<not> throws (Safe_op c :: ('a, 'f) call) \<Longrightarrow>
   last_error_message (snd (exec_safe c w :: ('a, 'f) ret \<times> world)) = last_error_message w"
  by (cases c)
    (auto simp: safe_vector_get_def safe_matrix_multiply_def get_last_error_message_def
      split: option.splits sum.splits)

text \<open>
  \<^bold>\<open>Claim C8.\<close> For every entry point, all arguments and every process state: when the
  call meets no internal failure, the message that \<open>get_last_error_message\<close> returns
  after the call is the message before it.
\<close>

theorem success_preserves_last_error:
  fixes c :: "('a::division_ring, 'f::division_ring) call"
  assumes "\<not> throws c"
  shows "get_last_error_message (snd (exec L c w)) = get_last_error_message w"
  using assms
  by (cases c)
    (simp_all add: get_last_error_message_def exec_vector_frame exec_string_frame
      exec_math_frame exec_matrix_frame exec_resource_frame exec_function_frame
      exec_iterator_frame exec_safe_frame)

theorem success_preserves_last_error_witness:
  "\<not> throws (Safe_op (Call_safe_vector_get (Some \<lparr>VectorWrapper.data = [10, 20]\<rparr>) 1 (Some 0))
        :: (real, real) call) \<and>
   exec \<lparr>std_sqrt = sqrt, std_pow = (powr), print_double = (\<lambda>x. [])\<rparr>
     (Safe_op (Call_safe_vector_get (Some \<lparr>VectorWrapper.data = [10, 20]\<rparr>) 1 (Some 0))
        :: (real, real) call)
     \<lparr>last_error_message = ''earlier failure'', cout = []\<rparr> =
     (R_code_int (CPP_SUCCESS, Some 20), \<lparr>last_error_message = ''earlier failure'', cout = []\<rparr>) \<and>
   get_last_error_message
     (snd (exec \<lparr>std_sqrt = sqrt, std_pow = (powr), print_double = (\<lambda>x. [])\<rparr>
        (Safe_op (Call_safe_vector_get (Some \<lparr>VectorWrapper.data = [10, 20]\<rparr>) 1 (Some 0))
           :: (real, real) call)
        \<lparr>last_error_message = ''earlier failure'', cout = []\<rparr>)) = ''earlier failure''"
proof -
  let ?c = "Safe_op (Call_safe_vector_get (Some \<lparr>VectorWrapper.data = [10, 20]\<rparr>) 1 (Some 0))
        :: (real, real) call"
  have h: "\<not> throws ?c"
    by (simp add: VectorWrapper_get_def vector_at_def)
  have e: "exec L ?c w = (R_code_int (CPP_SUCCESS, Some 20), w)" for L w
    by (simp add: safe_vector_get_def VectorWrapper_get_def vector_at_def)
  from success_preserves_last_error[OF h] h e show ?thesis
    by (simp add: get_last_error_message_def)
qed

end
